theory Spec2Isabelle
  imports Complex_Main "HOL-Library.Word"
begin

section \<open>Single-precision values\<close>

text \<open>
  The controller computes on C \<^verbatim>\<open>float\<close> values and uses NaN as the "no setpoint on this
  axis" marker. A value is NaN, one of the two infinities, or a finite number. Arithmetic
  on the special values follows IEEE 754; arithmetic on finite values is exact: rounding,
  overflow to infinity and the sign of zero are not modelled (a division of a non-zero
  finite value by zero gives the infinity of the dividend's sign).
\<close>

datatype float = NaN | PInf | MInf | Fin real

fun isfinite :: "float \<Rightarrow> bool" where
  "isfinite (Fin r) = True"
| "isfinite _ = False"

fun isnan :: "float \<Rightarrow> bool" where
  "isnan NaN = True"
| "isnan _ = False"

fun fneg :: "float \<Rightarrow> float" where
  "fneg NaN = NaN"
| "fneg PInf = MInf"
| "fneg MInf = PInf"
| "fneg (Fin r) = Fin (- r)"

fun fabsf :: "float \<Rightarrow> float" where
  "fabsf NaN = NaN"
| "fabsf PInf = PInf"
| "fabsf MInf = PInf"
| "fabsf (Fin r) = Fin \<bar>r\<bar>"

fun fadd :: "float \<Rightarrow> float \<Rightarrow> float" where
  "fadd NaN _ = NaN"
| "fadd _ NaN = NaN"
| "fadd PInf MInf = NaN"
| "fadd MInf PInf = NaN"
| "fadd PInf _ = PInf"
| "fadd MInf _ = MInf"
| "fadd _ PInf = PInf"
| "fadd _ MInf = MInf"
| "fadd (Fin a) (Fin b) = Fin (a + b)"

definition fsub :: "float \<Rightarrow> float \<Rightarrow> float" where
  "fsub a b = fadd a (fneg b)"

fun fmul :: "float \<Rightarrow> float \<Rightarrow> float" where
  "fmul NaN _ = NaN"
| "fmul _ NaN = NaN"
| "fmul PInf PInf = PInf"
| "fmul PInf MInf = MInf"
| "fmul MInf PInf = MInf"
| "fmul MInf MInf = PInf"
| "fmul PInf (Fin b) = (if b = 0 then NaN else if 0 < b then PInf else MInf)"
| "fmul MInf (Fin b) = (if b = 0 then NaN else if 0 < b then MInf else PInf)"
| "fmul (Fin a) PInf = (if a = 0 then NaN else if 0 < a then PInf else MInf)"
| "fmul (Fin a) MInf = (if a = 0 then NaN else if 0 < a then MInf else PInf)"
| "fmul (Fin a) (Fin b) = Fin (a * b)"

fun fdiv :: "float \<Rightarrow> float \<Rightarrow> float" where
  "fdiv NaN _ = NaN"
| "fdiv _ NaN = NaN"
| "fdiv PInf (Fin b) = (if 0 \<le> b then PInf else MInf)"
| "fdiv MInf (Fin b) = (if 0 \<le> b then MInf else PInf)"
| "fdiv (Fin a) (Fin b) =
     (if b = 0 then (if a = 0 then NaN else if 0 < a then PInf else MInf)
      else Fin (a / b))"
| "fdiv (Fin a) _ = Fin 0"
| "fdiv _ _ = NaN"

text \<open>The comparisons \<^verbatim>\<open><\<close>, \<^verbatim>\<open><=\<close> and \<^verbatim>\<open>>\<close>: false as soon as one side is NaN.\<close>

fun flt :: "float \<Rightarrow> float \<Rightarrow> bool" where
  "flt NaN _ = False"
| "flt _ NaN = False"
| "flt PInf _ = False"
| "flt _ MInf = False"
| "flt MInf _ = True"
| "flt _ PInf = True"
| "flt (Fin a) (Fin b) = (a < b)"

fun fle :: "float \<Rightarrow> float \<Rightarrow> bool" where
  "fle NaN _ = False"
| "fle _ NaN = False"
| "fle MInf _ = True"
| "fle _ PInf = True"
| "fle PInf _ = False"
| "fle _ MInf = False"
| "fle (Fin a) (Fin b) = (a \<le> b)"

definition fgt :: "float \<Rightarrow> float \<Rightarrow> bool" where
  "fgt a b = flt b a"

text \<open>\<^verbatim>\<open>fminf\<close> of the C library: the other operand when one is NaN.\<close>

definition fminf :: "float \<Rightarrow> float \<Rightarrow> float" where
  "fminf a b = (if isnan a then b else if isnan b then a else if flt b a then b else a)"

text \<open>
  Modelled from the spec: \<^verbatim>\<open>math::min\<close> and \<^verbatim>\<open>math::max\<close> of \<^verbatim>\<open>mathlib\<close>, which is not
  among the sources; the \<open>min\<close> and \<open>max\<close> of the specification, as the one-comparison
  templates \<^verbatim>\<open>(a < b) ? a : b\<close> and \<^verbatim>\<open>(a > b) ? a : b\<close>.
\<close>

definition math_min :: "float \<Rightarrow> float \<Rightarrow> float" where
  "math_min a b = (if flt a b then a else b)"

definition math_max :: "float \<Rightarrow> float \<Rightarrow> float" where
  "math_max a b = (if fgt a b then a else b)"

definition FLT_EPSILON :: float where
  "FLT_EPSILON = Fin (1 / 2 ^ 23)"

section \<open>Messages and controller state\<close>

type_synonym hrt_abstime = "64 word"

record vector3f =
  vec_0 :: float
  vec_1 :: float
  vec_2 :: float

definition vec_zero :: vector3f where
  "vec_zero = \<lparr>vec_0 = Fin 0, vec_1 = Fin 0, vec_2 = Fin 0\<rparr>"

record vehicle_local_position_s =
  lp_timestamp :: hrt_abstime
  lp_xy_valid :: bool
  lp_z_valid :: bool
  lp_v_xy_valid :: bool
  lp_v_z_valid :: bool
  lp_x :: float
  lp_y :: float
  lp_z :: float
  lp_vx :: float
  lp_vy :: float
  lp_vz :: float
  lp_z_deriv :: float
  lp_yaw :: float

record vehicle_local_position_setpoint_s =
  sp_timestamp :: hrt_abstime
  sp_x :: float
  sp_y :: float
  sp_z :: float
  sp_yaw :: float
  sp_yawspeed :: float
  sp_vx :: float
  sp_vy :: float
  sp_vz :: float
  sp_thrust :: vector3f

record vehicle_land_detected_s =
  alt_max :: float
  landed :: bool
  maybe_landed :: bool
  ground_contact :: bool

record home_position_s =
  hp_z :: float
  valid_alt :: bool

record PositionControlStates =
  position :: vector3f
  velocity :: vector3f
  acceleration :: vector3f
  yaw :: float

record vehicle_control_mode_s =
  flag_armed :: bool
  flag_control_auto_enabled :: bool
  flag_control_offboard_enabled :: bool
  flag_control_position_enabled :: bool
  flag_control_velocity_enabled :: bool
  flag_control_acceleration_enabled :: bool

datatype nav_state =
    NAVIGATION_STATE_MANUAL
  | NAVIGATION_STATE_ALTCTL
  | NAVIGATION_STATE_POSCTL
  | NAVIGATION_STATE_STAB
  | NAVIGATION_STATE_OFFBOARD
  | NAVIGATION_STATE_AUTO_FOLLOW_TARGET
  | NAVIGATION_STATE_OTHER nat

record vehicle_status_s =
  nav_state :: nav_state
  is_vtol :: bool

record vehicle_constraints_s =
  speed_up :: float
  min_distance_to_ground :: float
  landing_gear :: "8 word"

type_synonym quatf = "float \<times> float \<times> float \<times> float"

record vehicle_attitude_setpoint_s =
  att_timestamp :: hrt_abstime
  roll_body :: float
  pitch_body :: float
  yaw_body :: float
  yaw_sp_move_rate :: float
  q_d :: quatf
  q_d_valid :: bool
  thrust :: float
  fw_control_yaw :: bool
  disable_mc_yaw_control :: bool
  apply_flaps :: bool
  att_landing_gear :: "8 word"

text \<open>The parameters of \<^verbatim>\<open>DEFINE_PARAMETERS\<close>.\<close>

record parameters =
  takeoff_ramp_time :: float
  vel_max_up :: float
  vel_max_down :: float
  land_speed :: float
  tko_speed :: float
  MPC_LAND_ALT2 :: float
  MPC_POS_MODE :: int

datatype orb_id = mc_virtual_attitude_setpoint | vehicle_attitude_setpoint

text \<open>What a tick makes visible outside the controller: warnings and uORB messages.\<close>

datatype event =
    PX4_WARN string
  | Orb_publish_att "orb_id option" vehicle_attitude_setpoint_s
  | Orb_advertise_att orb_id vehicle_attitude_setpoint_s
  | Orb_publish_local_pos_sp vehicle_local_position_setpoint_s
  | Orb_advertise_local_pos_sp vehicle_local_position_setpoint_s

section \<open>Collaborators outside the controller file\<close>

subsection \<open>Hysteresis\<close>

text \<open>
  Modelled from the spec: \<^verbatim>\<open>systemlib::Hysteresis\<close> (\<^verbatim>\<open>systemlib/hysteresis/hysteresis.h\<close> is
  not among the sources). A debounced boolean with one dwell time per direction: a request
  for the opposite of the current state takes effect once it has been held for the dwell
  time of that direction. The controller configures the direction from \<^verbatim>\<open>false\<close> only
  (2500000 microseconds), so the dwell time from \<^verbatim>\<open>true\<close> is zero.
\<close>

record Hysteresis =
  h_state :: bool
  h_requested_state :: bool
  h_time_from_true_us :: hrt_abstime
  h_time_from_false_us :: hrt_abstime
  h_last_time_to_change_state :: hrt_abstime

definition IDLE_BOFORE_TAKEOFF_TIME_US :: hrt_abstime where
  "IDLE_BOFORE_TAKEOFF_TIME_US = 2500000"

definition Hysteresis_init :: "bool \<Rightarrow> Hysteresis" where
  "Hysteresis_init b =
     \<lparr>h_state = b, h_requested_state = b, h_time_from_true_us = 0,
      h_time_from_false_us = 0, h_last_time_to_change_state = 0\<rparr>"

definition set_hysteresis_time_from :: "bool \<Rightarrow> hrt_abstime \<Rightarrow> Hysteresis \<Rightarrow> Hysteresis" where
  "set_hysteresis_time_from from_state us h =
     (if from_state then h\<lparr>h_time_from_true_us := us\<rparr> else h\<lparr>h_time_from_false_us := us\<rparr>)"

definition get_state :: "Hysteresis \<Rightarrow> bool" where
  "get_state h = h_state h"

definition hysteresis_update :: "hrt_abstime \<Rightarrow> Hysteresis \<Rightarrow> Hysteresis" where
  "hysteresis_update now h =
     (if h_requested_state h \<noteq> h_state h then
        (let elapsed = now - h_last_time_to_change_state h in
         if h_state h \<and> \<not> h_requested_state h then
           (if h_time_from_true_us h \<le> elapsed then h\<lparr>h_state := False\<rparr> else h)
         else if \<not> h_state h \<and> h_requested_state h then
           (if h_time_from_false_us h \<le> elapsed then h\<lparr>h_state := True\<rparr> else h)
         else h)
      else h)"

definition set_state_and_update :: "bool \<Rightarrow> hrt_abstime \<Rightarrow> Hysteresis \<Rightarrow> Hysteresis" where
  "set_state_and_update new_state now h =
     hysteresis_update now
       (if new_state \<noteq> h_state h then
          (if new_state \<noteq> h_requested_state h
           then h\<lparr>h_requested_state := new_state, h_last_time_to_change_state := now\<rparr>
           else h)
        else h\<lparr>h_requested_state := h_state h\<rparr>)"

subsection \<open>Flight tasks\<close>

text \<open>
  Modelled from the spec: the flight task collection \<^verbatim>\<open>FlightTasks\<close>
  (\<^verbatim>\<open>lib/FlightTasks\<close> is not among the sources). It holds the index of the active task;
  \<^verbatim>\<open>switchTask\<close> returns an error code, zero on success; switching to \<^verbatim>\<open>None\<close> leaves
  no task active; a task whose activation fails leaves no task active either. Whether an
  activation succeeds, whether \<^verbatim>\<open>update\<close> succeeds and what the active task hands out
  are decided by the tasks, so they are inputs of the tick.
\<close>

datatype FlightTaskIndex =
    None_task | Stabilized | Altitude | Position | PositionSmooth | Sport
  | AutoLine | AutoFollowMe | Offboard

record FlightTasks =
  current_task :: FlightTaskIndex

definition switchTask ::
  "(FlightTaskIndex \<Rightarrow> int) \<Rightarrow> FlightTaskIndex \<Rightarrow> FlightTasks \<Rightarrow> int \<times> FlightTasks" where
  "switchTask activation new_task_index ft =
     (if new_task_index = current_task ft then (0, ft)
      else if new_task_index = None_task then (0, ft\<lparr>current_task := None_task\<rparr>)
      else if activation new_task_index = 0 then (0, ft\<lparr>current_task := new_task_index\<rparr>)
      else (activation new_task_index, ft\<lparr>current_task := None_task\<rparr>))"

definition isAnyTaskActive :: "FlightTasks \<Rightarrow> bool" where
  "isAnyTaskActive ft = (current_task ft \<noteq> None_task)"

subsection \<open>PID core, derivative blocks, attitude conversion\<close>

text \<open>
  \<^verbatim>\<open>PositionControl\<close>, \<^verbatim>\<open>control::BlockDerivative\<close>, \<^verbatim>\<open>ControlMath::thrustToAttitude\<close>,
  the Euler-to-quaternion conversion of the matrix library and the landing gear constants of
  the message headers are not among the sources. The controller is therefore a function of
  them: \<open>'c\<close> is the state of the PID core and \<open>'d\<close> the state of a derivative block.
\<close>

record ('c, 'd) externals =
  updateConstraints :: "vehicle_constraints_s \<Rightarrow> 'c \<Rightarrow> 'c"
  updateState :: "PositionControlStates \<Rightarrow> 'c \<Rightarrow> 'c"
  updateSetpoint :: "vehicle_local_position_setpoint_s \<Rightarrow> 'c \<Rightarrow> 'c"
  generateThrustYawSetpoint :: "float \<Rightarrow> 'c \<Rightarrow> 'c"
  getThrustSetpoint :: "'c \<Rightarrow> vector3f"
  getPosSp :: "'c \<Rightarrow> vector3f"
  getVelSp :: "'c \<Rightarrow> vector3f"
  getYawSetpoint :: "'c \<Rightarrow> float"
  getYawspeedSetpoint :: "'c \<Rightarrow> float"
  resetIntegralXY :: "'c \<Rightarrow> 'c"
  resetIntegralZ :: "'c \<Rightarrow> 'c"
  deriv_update :: "float \<Rightarrow> 'd \<Rightarrow> float \<times> 'd"
  thrustToAttitude :: "vector3f \<Rightarrow> float \<Rightarrow> vehicle_attitude_setpoint_s"
  Quatf_of_Eulerf :: "float \<Rightarrow> float \<Rightarrow> float \<Rightarrow> quatf"
  GEAR_KEEP :: "8 word"
  GEAR_UP :: "8 word"
  GEAR_DOWN :: "8 word"
  LANDING_GEAR_UP :: "8 word"
  LANDING_GEAR_DOWN :: "8 word"

section \<open>The controller\<close>

text \<open>
  The members of \<^verbatim>\<open>MulticopterPositionControl\<close> that the control loop reads or writes,
  with \<^verbatim>\<open>_dt\<close> of the \<^verbatim>\<open>SuperBlock\<close> base and \<^verbatim>\<open>t_prev\<close> of \<^verbatim>\<open>task_main\<close>.
\<close>

record ('c, 'd) mpc =
  in_smooth_takeoff :: bool
  att_sp_pub :: bool
  local_pos_sp_pub :: bool
  attitude_setpoint_id :: "orb_id option"
  takeoff_speed :: float
  vehicle_status :: vehicle_status_s
  vehicle_land_detected :: vehicle_land_detected_s
  att_sp :: vehicle_attitude_setpoint_s
  control_mode :: vehicle_control_mode_s
  local_pos :: vehicle_local_position_s
  local_pos_sp :: vehicle_local_position_setpoint_s
  home_pos :: home_position_s
  params :: parameters
  vel_x_deriv :: 'd
  vel_y_deriv :: 'd
  vel_z_deriv :: 'd
  flight_tasks :: FlightTasks
  control :: 'c
  states :: PositionControlStates
  last_warn :: hrt_abstime
  arm_hysteresis :: Hysteresis
  dt :: float
  t_prev :: hrt_abstime

text \<open>
  What one pass of the loop receives from outside: the clock (one reading per pass), the
  topics that were updated, whether a parameter update was notified and the values in the
  parameter store, the outcome of the flight task calls, and the indeterminate content of
  the local variable \<^verbatim>\<open>setpoint\<close>, which \<^verbatim>\<open>task_main\<close> declares without an initialiser.
\<close>

record tick_input =
  now :: hrt_abstime
  new_vehicle_status :: "vehicle_status_s option"
  new_vehicle_land_detected :: "vehicle_land_detected_s option"
  new_control_mode :: "vehicle_control_mode_s option"
  new_local_pos :: "vehicle_local_position_s option"
  new_home_pos :: "home_position_s option"
  parameter_update :: bool
  param_store :: parameters
  activation :: "FlightTaskIndex \<Rightarrow> int"
  task_update :: bool
  getPositionSetpoint :: vehicle_local_position_setpoint_s
  getConstraints :: vehicle_constraints_s
  setpoint_uninitialised :: vehicle_local_position_setpoint_s

subsection \<open>Helpers of the loop\<close>

definition warn_rate_limited :: "string \<Rightarrow> hrt_abstime \<Rightarrow> ('c, 'd) mpc \<Rightarrow> event list \<times> ('c, 'd) mpc" where
  "warn_rate_limited str t s =
     (if 200000 < t - last_warn s then ([PX4_WARN str], s\<lparr>last_warn := t\<rparr>) else ([], s))"

definition parameters_update :: "bool \<Rightarrow> tick_input \<Rightarrow> ('c, 'd) mpc \<Rightarrow> ('c, 'd) mpc" where
  "parameters_update force inp s =
     (if parameter_update inp \<or> force then
        (let p = param_store inp;
             p = p\<lparr>tko_speed := math_min (tko_speed p) (vel_max_up p)\<rparr>;
             p = p\<lparr>land_speed := math_min (land_speed p) (vel_max_down p)\<rparr>
         in s\<lparr>params := p\<rparr>)
      else s)"

definition poll_subscriptions :: "tick_input \<Rightarrow> ('c, 'd) mpc \<Rightarrow> ('c, 'd) mpc" where
  "poll_subscriptions inp s =
     (let s = (case new_vehicle_status inp of
                 None \<Rightarrow> s
               | Some vs \<Rightarrow>
                   (let s = s\<lparr>vehicle_status := vs\<rparr> in
                    if attitude_setpoint_id s = None then
                      (if is_vtol vs then s\<lparr>attitude_setpoint_id := Some mc_virtual_attitude_setpoint\<rparr>
                       else s\<lparr>attitude_setpoint_id := Some vehicle_attitude_setpoint\<rparr>)
                    else s));
          s = (case new_vehicle_land_detected inp of None \<Rightarrow> s | Some m \<Rightarrow> s\<lparr>vehicle_land_detected := m\<rparr>);
          s = (case new_control_mode inp of None \<Rightarrow> s | Some m \<Rightarrow> s\<lparr>control_mode := m\<rparr>);
          s = (case new_local_pos inp of None \<Rightarrow> s | Some m \<Rightarrow> s\<lparr>local_pos := m\<rparr>);
          s = (case new_home_pos inp of None \<Rightarrow> s | Some m \<Rightarrow> s\<lparr>home_pos := m\<rparr>)
      in s)"

definition limit_altitude ::
  "vehicle_local_position_setpoint_s \<Rightarrow> ('c, 'd) mpc \<Rightarrow> vehicle_local_position_setpoint_s" where
  "limit_altitude setpoint s =
     (if flt (alt_max (vehicle_land_detected s)) (Fin 0) \<or> \<not> valid_alt (home_pos s)
         \<or> \<not> lp_v_z_valid (local_pos s)
      then setpoint
      else
        (let altitude_above_home = fneg (fsub (vec_2 (position (states s))) (hp_z (home_pos s))) in
         if fgt altitude_above_home (alt_max (vehicle_land_detected s)) then
           setpoint\<lparr>sp_z := fadd (fneg (alt_max (vehicle_land_detected s))) (hp_z (home_pos s)),
                    sp_vz := Fin 0\<rparr>
         else if fle (sp_vz setpoint) (Fin 0) then
           (let delta_p = fsub (alt_max (vehicle_land_detected s)) altitude_above_home in
            if fgt (fmul (fabsf (sp_vz setpoint)) (dt s)) delta_p then
              setpoint\<lparr>sp_z := fadd (fneg (alt_max (vehicle_land_detected s))) (hp_z (home_pos s)),
                       sp_vz := Fin 0\<rparr>
            else setpoint)
         else setpoint))"

text \<open>
  In \<^verbatim>\<open>check_vehicle_states\<close> the blended vertical velocity is stored first and the raw
  \<^verbatim>\<open>vz\<close> is stored over it, as the source does.
\<close>

definition check_vehicle_states ::
  "('c, 'd) externals \<Rightarrow> float \<Rightarrow> ('c, 'd) mpc \<Rightarrow> ('c, 'd) mpc" where
  "check_vehicle_states ext vel_sp_z s =
     (if lp_timestamp (local_pos s) = 0 then s
      else
        (let lp = local_pos s;
             st = states s;
             st = (if isfinite (lp_x lp) \<and> isfinite (lp_y lp) \<and> lp_xy_valid lp
                   then st\<lparr>position := (position st)\<lparr>vec_0 := lp_x lp, vec_1 := lp_y lp\<rparr>\<rparr>
                   else st\<lparr>position := (position st)\<lparr>vec_0 := NaN, vec_1 := NaN\<rparr>\<rparr>);
             st = (if isfinite (lp_z lp) \<and> lp_z_valid lp
                   then st\<lparr>position := (position st)\<lparr>vec_2 := lp_z lp\<rparr>\<rparr>
                   else st\<lparr>position := (position st)\<lparr>vec_2 := NaN\<rparr>\<rparr>);
             (st, dx, dy) =
               (if isfinite (lp_vx lp) \<and> isfinite (lp_vy lp) \<and> lp_v_xy_valid lp then
                  (let st = st\<lparr>velocity := (velocity st)\<lparr>vec_0 := lp_vx lp, vec_1 := lp_vy lp\<rparr>\<rparr>;
                       (ax, dx) = deriv_update ext (fneg (vec_0 (velocity st))) (vel_x_deriv s);
                       st = st\<lparr>acceleration := (acceleration st)\<lparr>vec_0 := ax\<rparr>\<rparr>;
                       (ay, dy) = deriv_update ext (fneg (vec_1 (velocity st))) (vel_y_deriv s);
                       st = st\<lparr>acceleration := (acceleration st)\<lparr>vec_1 := ay\<rparr>\<rparr>
                   in (st, dx, dy))
                else
                  (let st = st\<lparr>velocity := (velocity st)\<lparr>vec_0 := NaN, vec_1 := NaN\<rparr>\<rparr>;
                       st = st\<lparr>acceleration := (acceleration st)\<lparr>vec_0 := NaN, vec_1 := NaN\<rparr>\<rparr>
                   in (st, snd (deriv_update ext (Fin 0) (vel_x_deriv s)),
                           snd (deriv_update ext (Fin 0) (vel_y_deriv s)))));
             (st, dz) =
               (if isfinite (lp_vz lp) then
                  (let st = (if isfinite vel_sp_z \<and> fgt (fabsf vel_sp_z) FLT_EPSILON
                                \<and> isfinite (lp_z_deriv lp)
                             then
                               (let weighting = fminf (fdiv (fabsf vel_sp_z) (land_speed (params s))) (Fin 1) in
                                st\<lparr>velocity := (velocity st)
                                     \<lparr>vec_2 := fadd (fmul (lp_z_deriv lp) weighting)
                                                     (fmul (lp_vz lp) (fsub (Fin 1) weighting))\<rparr>\<rparr>)
                             else st);
                       st = st\<lparr>velocity := (velocity st)\<lparr>vec_2 := lp_vz lp\<rparr>\<rparr>;
                       (az, dz) = deriv_update ext (fneg (vec_2 (velocity st))) (vel_z_deriv s);
                       st = st\<lparr>acceleration := (acceleration st)\<lparr>vec_2 := az\<rparr>\<rparr>
                   in (st, dz))
                else
                  (let st = st\<lparr>velocity := (velocity st)\<lparr>vec_2 := NaN\<rparr>\<rparr>;
                       st = st\<lparr>acceleration := (acceleration st)\<lparr>vec_2 := NaN\<rparr>\<rparr>
                   in (st, snd (deriv_update ext (Fin 0) (vel_z_deriv s)))));
             st = (if isfinite (lp_yaw lp) then st\<lparr>yaw := lp_yaw lp\<rparr> else st)
         in s\<lparr>states := st, vel_x_deriv := dx, vel_y_deriv := dy, vel_z_deriv := dz\<rparr>))"

text \<open>One \<^verbatim>\<open>switchTask\<close> call of \<^verbatim>\<open>start_flight_task\<close> on the controller's task collection.\<close>

definition switch_to :: "tick_input \<Rightarrow> FlightTaskIndex \<Rightarrow> ('c, 'd) mpc \<Rightarrow> int \<times> ('c, 'd) mpc" where
  "switch_to inp idx s =
     (let (error, ft) = switchTask (activation inp) idx (flight_tasks s)
      in (error, s\<lparr>flight_tasks := ft\<rparr>))"

text \<open>
  The block that \<^verbatim>\<open>start_flight_task\<close> repeats for each task: switch, and on an error warn
  and raise \<^verbatim>\<open>task_failure\<close>. The blocks of the manual tasks clear \<^verbatim>\<open>task_failure\<close> on
  success (\<open>clears\<close>); those of the offboard and auto tasks leave it as it is.
\<close>

definition try_task ::
  "tick_input \<Rightarrow> FlightTaskIndex \<Rightarrow> string \<Rightarrow> bool \<Rightarrow> bool \<times> event list \<times> ('c, 'd) mpc \<Rightarrow>
   bool \<times> event list \<times> ('c, 'd) mpc" where
  "try_task inp idx msg clears x =
     (case x of (task_failure, ev, s) \<Rightarrow>
        (let (error, s) = switch_to inp idx s in
         if error \<noteq> 0 then (True, ev @ [PX4_WARN msg], s)
         else (if clears then False else task_failure, ev, s)))"

definition start_offboard :: "tick_input \<Rightarrow> bool \<times> event list \<times> ('c, 'd) mpc \<Rightarrow> bool \<times> event list \<times> ('c, 'd) mpc" where
  "start_offboard inp x =
     (if nav_state (vehicle_status (snd (snd x))) = NAVIGATION_STATE_OFFBOARD
      then try_task inp Offboard ''Offboard activation failded with error'' False x
      else x)"

definition start_auto :: "tick_input \<Rightarrow> bool \<times> event list \<times> ('c, 'd) mpc \<Rightarrow> bool \<times> event list \<times> ('c, 'd) mpc" where
  "start_auto inp x =
     (if nav_state (vehicle_status (snd (snd x))) = NAVIGATION_STATE_AUTO_FOLLOW_TARGET
      then try_task inp AutoFollowMe ''Follow-Me activation failed with error'' False x
      else if flag_control_auto_enabled (control_mode (snd (snd x)))
      then try_task inp AutoLine ''Auto activation failed with error'' False x
      else x)"

definition start_position :: "tick_input \<Rightarrow> bool \<times> event list \<times> ('c, 'd) mpc \<Rightarrow> bool \<times> event list \<times> ('c, 'd) mpc" where
  "start_position inp x =
     (if nav_state (vehicle_status (snd (snd x))) = NAVIGATION_STATE_POSCTL \<or> fst x
      then try_task inp
             (if MPC_POS_MODE (params (snd (snd x))) = 0 then Position
              else if MPC_POS_MODE (params (snd (snd x))) = 1 then PositionSmooth
              else if MPC_POS_MODE (params (snd (snd x))) = 2 then Sport
              else Position)
             ''Position-Ctrl activation failed with error'' True x
      else x)"

definition start_altitude :: "tick_input \<Rightarrow> bool \<times> event list \<times> ('c, 'd) mpc \<Rightarrow> bool \<times> event list \<times> ('c, 'd) mpc" where
  "start_altitude inp x =
     (if nav_state (vehicle_status (snd (snd x))) = NAVIGATION_STATE_ALTCTL \<or> fst x
      then try_task inp Altitude ''Altitude-Ctrl activation failed with error'' True x
      else x)"

definition start_stabilized :: "tick_input \<Rightarrow> bool \<times> event list \<times> ('c, 'd) mpc \<Rightarrow> bool \<times> event list \<times> ('c, 'd) mpc" where
  "start_stabilized inp x =
     (if nav_state (vehicle_status (snd (snd x))) = NAVIGATION_STATE_MANUAL
         \<or> nav_state (vehicle_status (snd (snd x))) = NAVIGATION_STATE_STAB \<or> fst x
      then try_task inp Stabilized ''Stabilized-Ctrl failed with error'' True x
      else x)"

definition start_flight_task :: "tick_input \<Rightarrow> ('c, 'd) mpc \<Rightarrow> event list \<times> ('c, 'd) mpc" where
  "start_flight_task inp s =
     (case start_stabilized inp (start_altitude inp (start_position inp
             (start_auto inp (start_offboard inp (False, [], s))))) of
        (task_failure, ev, s) \<Rightarrow>
          if task_failure then
            (let (error, s) = switch_to inp None_task s;
                 (w, s) = warn_rate_limited ''No Flighttask is running'' (now inp) s
             in (ev @ w, s))
          else (ev, s))"

definition check_for_smooth_takeoff ::
  "float \<Rightarrow> float \<Rightarrow> vehicle_constraints_s \<Rightarrow> ('c, 'd) mpc \<Rightarrow> ('c, 'd) mpc" where
  "check_for_smooth_takeoff z_sp vz_sp constraints s =
     (if landed (vehicle_land_detected s) \<and> \<not> in_smooth_takeoff s then
        (let min_altitude =
               (if isfinite (min_distance_to_ground constraints)
                then fadd (min_distance_to_ground constraints) (Fin (5 / 100))
                else Fin (2 / 10)) in
         if (isfinite z_sp \<and> flt z_sp (fsub (vec_2 (position (states s))) min_altitude))
            \<or> (isfinite vz_sp \<and> flt vz_sp (math_min (fneg (tko_speed (params s))) (Fin (- (6 / 10)))))
         then s\<lparr>in_smooth_takeoff := True, takeoff_speed := Fin (- (5 / 10))\<rparr>
         else s\<lparr>in_smooth_takeoff := False\<rparr>)
      else s)"

definition update_smooth_takeoff :: "float \<Rightarrow> float \<Rightarrow> ('c, 'd) mpc \<Rightarrow> ('c, 'd) mpc" where
  "update_smooth_takeoff z_sp vz_sp s =
     (if in_smooth_takeoff s then
        (let desired_tko_speed = fneg vz_sp;
             desired_tko_speed = (if isfinite z_sp then tko_speed (params s) else desired_tko_speed);
             s = s\<lparr>takeoff_speed :=
                     fadd (takeoff_speed s)
                          (fdiv (fmul desired_tko_speed (dt s)) (takeoff_ramp_time (params s)))\<rparr>;
             s = s\<lparr>takeoff_speed := math_min (takeoff_speed s) desired_tko_speed\<rparr>
         in if isfinite z_sp then
              s\<lparr>in_smooth_takeoff :=
                  fgt (fsub (vec_2 (position (states s))) (Fin (2 / 10)))
                      (math_max z_sp (fneg (MPC_LAND_ALT2 (params s))))\<rparr>
            else s\<lparr>in_smooth_takeoff := flt (takeoff_speed s) (fneg vz_sp)\<rparr>)
      else s\<lparr>in_smooth_takeoff := False\<rparr>)"

definition limit_thrust_during_landing ::
  "('c, 'd) externals \<Rightarrow> vector3f \<Rightarrow> ('c, 'd) mpc \<Rightarrow> vector3f \<times> ('c, 'd) mpc" where
  "limit_thrust_during_landing ext thr_sp s =
     (let (thr_sp, s) =
            (if ground_contact (vehicle_land_detected s)
             then (thr_sp\<lparr>vec_0 := Fin 0, vec_1 := Fin 0\<rparr>,
                   s\<lparr>control := resetIntegralXY ext (control s)\<rparr>)
             else (thr_sp, s))
      in if maybe_landed (vehicle_land_detected s)
         then (vec_zero, s\<lparr>control := resetIntegralZ ext (resetIntegralXY ext (control s))\<rparr>)
         else (thr_sp, s))"

text \<open>
  \<^verbatim>\<open>orb_advertise\<close> announces the topic with the message as its first sample and returns the
  handle that later \<^verbatim>\<open>orb_publish\<close> calls use.
\<close>

definition publish_attitude :: "hrt_abstime \<Rightarrow> ('c, 'd) mpc \<Rightarrow> event list \<times> ('c, 'd) mpc" where
  "publish_attitude t s =
     (if get_state (arm_hysteresis s)
         \<and> \<not> (flag_control_offboard_enabled (control_mode s)
               \<and> \<not> (flag_control_position_enabled (control_mode s)
                     \<or> flag_control_velocity_enabled (control_mode s)
                     \<or> flag_control_acceleration_enabled (control_mode s)))
      then
        (let s = s\<lparr>att_sp := (att_sp s)\<lparr>att_timestamp := t\<rparr>\<rparr> in
         if att_sp_pub s then ([Orb_publish_att (attitude_setpoint_id s) (att_sp s)], s)
         else (case attitude_setpoint_id s of
                 Some topic \<Rightarrow> ([Orb_advertise_att topic (att_sp s)], s\<lparr>att_sp_pub := True\<rparr>)
               | None \<Rightarrow> ([], s)))
      else ([], s))"

definition publish_local_pos_sp :: "hrt_abstime \<Rightarrow> ('c, 'd) mpc \<Rightarrow> event list \<times> ('c, 'd) mpc" where
  "publish_local_pos_sp t s =
     (let s = s\<lparr>local_pos_sp := (local_pos_sp s)\<lparr>sp_timestamp := t\<rparr>\<rparr> in
      if local_pos_sp_pub s then ([Orb_publish_local_pos_sp (local_pos_sp s)], s)
      else ([Orb_advertise_local_pos_sp (local_pos_sp s)], s\<lparr>local_pos_sp_pub := True\<rparr>))"

subsection \<open>The body of the loop in \<^verbatim>\<open>task_main\<close>\<close>

text \<open>
  The setpoint of the tick: the task's own, or the failsafe one when \<^verbatim>\<open>update\<close> failed. The
  failsafe assigns the position, velocity and thrust fields of the local variable and
  leaves its other fields as they are.
\<close>

definition task_setpoint ::
  "tick_input \<Rightarrow> ('c, 'd) mpc \<Rightarrow> event list \<times> vehicle_local_position_setpoint_s \<times> ('c, 'd) mpc" where
  "task_setpoint inp s =
     (if \<not> task_update inp then
        (let setpoint = setpoint_uninitialised inp;
             setpoint = setpoint\<lparr>sp_x := NaN, sp_y := NaN, sp_z := NaN\<rparr>;
             setpoint = setpoint\<lparr>sp_vx := NaN, sp_vy := NaN, sp_vz := NaN\<rparr>;
             setpoint = setpoint\<lparr>sp_thrust := \<lparr>vec_0 = NaN, vec_1 = NaN, vec_2 = NaN\<rparr>\<rparr>
         in if isfinite (vec_2 (velocity (states s))) then
              (let setpoint = setpoint\<lparr>sp_vz := land_speed (params s)\<rparr>;
                   setpoint = setpoint\<lparr>sp_thrust := (sp_thrust setpoint)\<lparr>vec_0 := Fin 0, vec_1 := Fin 0\<rparr>\<rparr>;
                   (w, s) = warn_rate_limited ''Failsafe: Descend with land-speed.'' (now inp) s
               in (w, setpoint, s))
            else
              (let (w, s) = warn_rate_limited ''Failsafe: Descend with just attitude control.'' (now inp) s
               in (w, setpoint, s)))
      else ([], getPositionSetpoint inp, s))"

text \<open>The smooth takeoff block of the tick, guarded by the arming check.\<close>

definition smooth_takeoff ::
  "vehicle_local_position_setpoint_s \<Rightarrow> vehicle_constraints_s \<Rightarrow> ('c, 'd) mpc \<Rightarrow>
   vehicle_local_position_setpoint_s \<times> vehicle_constraints_s \<times> ('c, 'd) mpc" where
  "smooth_takeoff setpoint constraints s =
     (if get_state (arm_hysteresis s) \<and> isfinite (vec_2 (position (states s)))
         \<and> isfinite (vec_2 (velocity (states s)))
      then
        (let s = check_for_smooth_takeoff (sp_z setpoint) (sp_vz setpoint) constraints s;
             s = update_smooth_takeoff (sp_z setpoint) (sp_vz setpoint) s
         in if in_smooth_takeoff s then
              (setpoint\<lparr>sp_yaw := NaN, sp_yawspeed := NaN, sp_x := NaN, sp_y := NaN,
                        sp_vx := Fin 0, sp_vy := Fin 0\<rparr>,
               constraints\<lparr>speed_up := takeoff_speed s\<rparr>, s)
            else (setpoint, constraints, s))
      else (setpoint, constraints, s))"

text \<open>Keeping the throttle low while landed.\<close>

definition landed_idle ::
  "('c, 'd) externals \<Rightarrow> vehicle_local_position_setpoint_s \<Rightarrow> vehicle_constraints_s \<Rightarrow> ('c, 'd) mpc \<Rightarrow>
   vehicle_local_position_setpoint_s \<times> vehicle_constraints_s" where
  "landed_idle ext setpoint constraints s =
     (if landed (vehicle_land_detected s) \<and> \<not> in_smooth_takeoff s
         \<and> \<not> isfinite (vec_2 (sp_thrust setpoint))
      then
        (setpoint\<lparr>sp_thrust := vec_zero, sp_x := NaN, sp_y := NaN, sp_z := NaN,
                  sp_vx := NaN, sp_vy := NaN, sp_vz := NaN, sp_yawspeed := NaN,
                  sp_yaw := yaw (states s)\<rparr>,
         constraints\<lparr>landing_gear := GEAR_KEEP ext\<rparr>)
      else (setpoint, constraints))"

text \<open>
  The first steps of the tick with an active task: the setpoint and the constraints of the
  task, the validation of the vehicle states and the update of the arm hysteresis.
\<close>

definition gather_inputs ::
  "('c, 'd) externals \<Rightarrow> tick_input \<Rightarrow> ('c, 'd) mpc \<Rightarrow>
   event list \<times> vehicle_local_position_setpoint_s \<times> vehicle_constraints_s \<times> ('c, 'd) mpc" where
  "gather_inputs ext inp s =
     (let (ev, setpoint, s) = task_setpoint inp s;
          constraints = getConstraints inp;
          s = check_vehicle_states ext (sp_vz setpoint) s;
          s = s\<lparr>arm_hysteresis :=
                  set_state_and_update (flag_armed (control_mode s)) (now inp) (arm_hysteresis s)\<rparr>
      in (ev, setpoint, constraints, s))"

text \<open>
  Everything the tick does with an active task before it calls the PID core: the result
  holds the setpoint and the constraints that the PID core is given.
\<close>

definition control_inputs ::
  "('c, 'd) externals \<Rightarrow> tick_input \<Rightarrow> ('c, 'd) mpc \<Rightarrow>
   event list \<times> vehicle_local_position_setpoint_s \<times> vehicle_constraints_s \<times> ('c, 'd) mpc" where
  "control_inputs ext inp s =
     (let (ev, setpoint, constraints, s) = gather_inputs ext inp s;
          (setpoint, constraints, s) = smooth_takeoff setpoint constraints s;
          (setpoint, constraints) = landed_idle ext setpoint constraints s;
          setpoint = (if isfinite (vec_2 (position (states s))) then limit_altitude setpoint s
                      else setpoint)
      in (ev, setpoint, constraints, s))"

definition run_control ::
  "('c, 'd) externals \<Rightarrow> vehicle_local_position_setpoint_s \<Rightarrow> vehicle_constraints_s \<Rightarrow> ('c, 'd) mpc \<Rightarrow>
   vector3f \<times> ('c, 'd) mpc" where
  "run_control ext setpoint constraints s =
     (let c = updateConstraints ext constraints (control s);
          c = updateState ext (states s) c;
          c = updateSetpoint ext setpoint c;
          c = generateThrustYawSetpoint ext (dt s) c;
          s = s\<lparr>control := c\<rparr>;
          thr_sp = getThrustSetpoint ext (control s)
      in if \<not> in_smooth_takeoff s \<and> \<not> isfinite (vec_2 (sp_thrust setpoint))
         then limit_thrust_during_landing ext thr_sp s
         else (thr_sp, s))"

definition fill_setpoints ::
  "('c, 'd) externals \<Rightarrow> hrt_abstime \<Rightarrow> vector3f \<Rightarrow> vehicle_constraints_s \<Rightarrow> ('c, 'd) mpc \<Rightarrow> ('c, 'd) mpc" where
  "fill_setpoints ext t thr_sp constraints s =
     (let c = control s;
          lsp = (local_pos_sp s)
                  \<lparr>sp_timestamp := t,
                   sp_x := vec_0 (getPosSp ext c), sp_y := vec_1 (getPosSp ext c),
                   sp_z := vec_2 (getPosSp ext c),
                   sp_yaw := getYawSetpoint ext c, sp_yawspeed := getYawspeedSetpoint ext c,
                   sp_vx := vec_0 (getVelSp ext c), sp_vy := vec_1 (getVelSp ext c),
                   sp_vz := vec_2 (getVelSp ext c),
                   sp_thrust := thr_sp\<rparr>;
          a = thrustToAttitude ext thr_sp (getYawSetpoint ext c);
          a = a\<lparr>yaw_sp_move_rate := getYawspeedSetpoint ext c, fw_control_yaw := False,
                 disable_mc_yaw_control := False, apply_flaps := False\<rparr>;
          a = (if landing_gear constraints = 0 then
                 (let a = (if landing_gear constraints = GEAR_UP ext
                           then a\<lparr>att_landing_gear := LANDING_GEAR_UP ext\<rparr> else a)
                  in if landing_gear constraints = GEAR_DOWN ext
                     then a\<lparr>att_landing_gear := LANDING_GEAR_DOWN ext\<rparr> else a)
               else a)
      in s\<lparr>local_pos_sp := lsp, att_sp := a\<rparr>)"

definition active_task ::
  "('c, 'd) externals \<Rightarrow> tick_input \<Rightarrow> ('c, 'd) mpc \<Rightarrow> event list \<times> ('c, 'd) mpc" where
  "active_task ext inp s =
     (let (ev, setpoint, constraints, s) = control_inputs ext inp s;
          (thr_sp, s) = run_control ext setpoint constraints s;
          s = fill_setpoints ext (now inp) thr_sp constraints s;
          (pub, s) = publish_local_pos_sp (now inp) s
      in (ev @ pub, s))"

definition stay_idle :: "('c, 'd) externals \<Rightarrow> ('c, 'd) mpc \<Rightarrow> ('c, 'd) mpc" where
  "stay_idle ext s =
     (let a = (att_sp s)\<lparr>roll_body := Fin 0, pitch_body := Fin 0\<rparr>;
          a = a\<lparr>yaw_body := lp_yaw (local_pos s), yaw_sp_move_rate := Fin 0,
                 fw_control_yaw := False, disable_mc_yaw_control := False, apply_flaps := False\<rparr>;
          a = a\<lparr>q_d := Quatf_of_Eulerf ext (roll_body a) (pitch_body a) (yaw_body a),
                 q_d_valid := True, thrust := Fin 0\<rparr>
      in s\<lparr>att_sp := a\<rparr>)"

text \<open>The arming step at the head of the tick.\<close>

definition arming :: "tick_input \<Rightarrow> ('c, 'd) mpc \<Rightarrow> event list \<times> ('c, 'd) mpc" where
  "arming inp s =
     (if flag_armed (control_mode s) then start_flight_task inp s
      else
        (let (error, s) = switch_to inp None_task s
         in ([], s\<lparr>arm_hysteresis := set_state_and_update False (now inp) (arm_hysteresis s)\<rparr>)))"

text \<open>The head of the tick: polling, parameters, \<^verbatim>\<open>dt\<close> and the arming step.\<close>

definition tick_head :: "tick_input \<Rightarrow> ('c, 'd) mpc \<Rightarrow> event list \<times> ('c, 'd) mpc" where
  "tick_head inp s =
     (let s = poll_subscriptions inp s;
          s = parameters_update False inp s;
          t = now inp;
          d = (if t_prev s \<noteq> 0 then Fin (real (unat (t - t_prev s)) / 1000000) else Fin (4 / 1000));
          s = s\<lparr>t_prev := t, dt := d\<rparr>
      in arming inp s)"

definition tick :: "('c, 'd) externals \<Rightarrow> tick_input \<Rightarrow> ('c, 'd) mpc \<Rightarrow> event list \<times> ('c, 'd) mpc" where
  "tick ext inp s =
     (let (ev1, s) = tick_head inp s;
          (ev2, s) = (if isAnyTaskActive (flight_tasks s) then active_task ext inp s
                      else ([], stay_idle ext s));
          (ev3, s) = publish_attitude (now inp) s
      in (ev1 @ ev2 @ ev3, s))"

text \<open>One pass of the \<^verbatim>\<open>while\<close> loop: a failed poll skips the tick.\<close>

definition loop_pass ::
  "('c, 'd) externals \<Rightarrow> int \<times> tick_input \<Rightarrow> ('c, 'd) mpc \<Rightarrow> event list \<times> ('c, 'd) mpc" where
  "loop_pass ext pass s =
     (if fst pass < 0 then ([PX4_WARN ''poll error''], s) else tick ext (snd pass) s)"

fun task_main_loop ::
  "('c, 'd) externals \<Rightarrow> (int \<times> tick_input) list \<Rightarrow> ('c, 'd) mpc \<Rightarrow> event list \<times> ('c, 'd) mpc" where
  "task_main_loop ext [] s = ([], s)"
| "task_main_loop ext (pass # passes) s =
     (let (ev, s) = loop_pass ext pass s;
          (evs, s) = task_main_loop ext passes s
      in (ev @ evs, s))"

text \<open>
  \<^verbatim>\<open>task_main\<close>: the first reading of parameters and topics (\<open>inp\<close>), the landing gear
  default, then the passes of the loop until the exit flag is seen.
\<close>

definition task_main ::
  "('c, 'd) externals \<Rightarrow> tick_input \<Rightarrow> (int \<times> tick_input) list \<Rightarrow> ('c, 'd) mpc \<Rightarrow>
   event list \<times> ('c, 'd) mpc" where
  "task_main ext inp passes s =
     (let s = parameters_update True inp s;
          s = poll_subscriptions inp s;
          s = s\<lparr>t_prev := 0\<rparr>;
          s = s\<lparr>att_sp := (att_sp s)\<lparr>att_landing_gear := LANDING_GEAR_DOWN ext\<rparr>\<rparr>
      in task_main_loop ext passes s)"

subsection \<open>Construction\<close>

text \<open>
  The members as the constructor leaves them, for a PID core in state \<open>c\<close>, derivative
  blocks in state \<open>d\<close> and a parameter store \<open>p\<close>: the messages are zero-initialised, the
  ramp value is \<open>-1\<close>, and the arm hysteresis starts false with its dwell time set. The
  yaw of \<^verbatim>\<open>_states\<close> has no initialiser, so its first content \<open>y\<close> is a parameter; \<^verbatim>\<open>_dt\<close>
  is taken to start at zero (every tick sets it before it is read).
\<close>

definition MulticopterPositionControl :: "'c \<Rightarrow> 'd \<Rightarrow> parameters \<Rightarrow> float \<Rightarrow> ('c, 'd) mpc" where
  "MulticopterPositionControl c d p y =
     \<lparr>in_smooth_takeoff = False,
      att_sp_pub = False,
      local_pos_sp_pub = False,
      attitude_setpoint_id = None,
      takeoff_speed = Fin (- 1),
      vehicle_status = \<lparr>nav_state = NAVIGATION_STATE_MANUAL, is_vtol = False\<rparr>,
      vehicle_land_detected =
        \<lparr>alt_max = Fin 0, landed = False, maybe_landed = False, ground_contact = False\<rparr>,
      att_sp =
        \<lparr>att_timestamp = 0, roll_body = Fin 0, pitch_body = Fin 0, yaw_body = Fin 0,
         yaw_sp_move_rate = Fin 0, q_d = (Fin 0, Fin 0, Fin 0, Fin 0), q_d_valid = False,
         thrust = Fin 0, fw_control_yaw = False, disable_mc_yaw_control = False,
         apply_flaps = False, att_landing_gear = 0\<rparr>,
      control_mode =
        \<lparr>flag_armed = False, flag_control_auto_enabled = False,
         flag_control_offboard_enabled = False, flag_control_position_enabled = False,
         flag_control_velocity_enabled = False, flag_control_acceleration_enabled = False\<rparr>,
      local_pos =
        \<lparr>lp_timestamp = 0, lp_xy_valid = False, lp_z_valid = False, lp_v_xy_valid = False,
         lp_v_z_valid = False, lp_x = Fin 0, lp_y = Fin 0, lp_z = Fin 0, lp_vx = Fin 0,
         lp_vy = Fin 0, lp_vz = Fin 0, lp_z_deriv = Fin 0, lp_yaw = Fin 0\<rparr>,
      local_pos_sp =
        \<lparr>sp_timestamp = 0, sp_x = Fin 0, sp_y = Fin 0, sp_z = Fin 0, sp_yaw = Fin 0,
         sp_yawspeed = Fin 0, sp_vx = Fin 0, sp_vy = Fin 0, sp_vz = Fin 0, sp_thrust = vec_zero\<rparr>,
      home_pos = \<lparr>hp_z = Fin 0, valid_alt = False\<rparr>,
      params = p\<lparr>tko_speed := math_min (tko_speed p) (vel_max_up p),
                 land_speed := math_min (land_speed p) (vel_max_down p)\<rparr>,
      vel_x_deriv = d,
      vel_y_deriv = d,
      vel_z_deriv = d,
      flight_tasks = \<lparr>current_task = None_task\<rparr>,
      control = c,
      states = \<lparr>position = vec_zero, velocity = vec_zero, acceleration = vec_zero, yaw = y\<rparr>,
      last_warn = 0,
      arm_hysteresis =
        set_hysteresis_time_from False IDLE_BOFORE_TAKEOFF_TIME_US (Hysteresis_init False),
      dt = Fin 0,
      t_prev = 0\<rparr>"


section \<open>Notions used in the statements\<close>

text \<open>An attitude setpoint leaves the controller by \<^verbatim>\<open>orb_publish\<close> or by \<^verbatim>\<open>orb_advertise\<close>.\<close>

fun is_attitude_setpoint :: "event \<Rightarrow> bool" where
  "is_attitude_setpoint (Orb_publish_att topic a) = True"
| "is_attitude_setpoint (Orb_advertise_att topic a) = True"
| "is_attitude_setpoint _ = False"

definition attitude_published :: "event list \<Rightarrow> bool" where
  "attitude_published ev = list_ex is_attitude_setpoint ev"

text \<open>The speed that the takeoff ramp approaches in a tick.\<close>

definition desired_tko_speed :: "float \<Rightarrow> float \<Rightarrow> ('c, 'd) mpc \<Rightarrow> float" where
  "desired_tko_speed z_sp vz_sp s = (if isfinite z_sp then tko_speed (params s) else fneg vz_sp)"

abbreviation state_of :: "'a \<times> 'b \<times> 'c \<times> 's \<Rightarrow> 's" where
  "state_of x \<equiv> snd (snd (snd x))"

text \<open>The controller when the tick has polled, read the clock and done the arming step.\<close>

abbreviation after_head :: "tick_input \<Rightarrow> ('c, 'd) mpc \<Rightarrow> ('c, 'd) mpc" where
  "after_head inp s \<equiv> snd (tick_head inp s)"

text \<open>
  The PID core after one execution on the outcome \<open>C\<close> of \<open>control_inputs\<close>: it has been
  given the constraints, the states and the setpoint, and has generated thrust and yaw.
\<close>

definition pid_executed ::
  "('c, 'd) externals \<Rightarrow>
   event list \<times> vehicle_local_position_setpoint_s \<times> vehicle_constraints_s \<times> ('c, 'd) mpc \<Rightarrow> 'c" where
  "pid_executed ext C =
     generateThrustYawSetpoint ext (dt (state_of C))
       (updateSetpoint ext (fst (snd C))
         (updateState ext (states (state_of C))
           (updateConstraints ext (fst (snd (snd C))) (control (state_of C)))))"

text \<open>Two controller states that differ at most in the task collection and the warning timer.\<close>

definition tasks_only :: "('c, 'd) mpc \<Rightarrow> ('c, 'd) mpc \<Rightarrow> bool" where
  "tasks_only s s' = (s' = s\<lparr>flight_tasks := flight_tasks s', last_warn := last_warn s'\<rparr>)"

definition quiet :: "('c, 'd) mpc \<Rightarrow> bool \<times> event list \<times> ('c, 'd) mpc \<Rightarrow> bool" where
  "quiet s x = (tasks_only s (snd (snd x)) \<and> \<not> attitude_published (fst (snd x)))"

text \<open>
  Agreement of two controller states on the fields that decide about publication, on the
  smooth takeoff state, and on what the arming check reads.
\<close>

definition same_publication :: "('c, 'd) mpc \<Rightarrow> ('c, 'd) mpc \<Rightarrow> bool" where
  "same_publication s s' =
     (att_sp_pub s' = att_sp_pub s \<and> attitude_setpoint_id s' = attitude_setpoint_id s
      \<and> control_mode s' = control_mode s \<and> flight_tasks s' = flight_tasks s)"

definition same_takeoff :: "('c, 'd) mpc \<Rightarrow> ('c, 'd) mpc \<Rightarrow> bool" where
  "same_takeoff s s' =
     (in_smooth_takeoff s' = in_smooth_takeoff s \<and> takeoff_speed s' = takeoff_speed s)"

definition same_arming :: "('c, 'd) mpc \<Rightarrow> ('c, 'd) mpc \<Rightarrow> bool" where
  "same_arming s s' = (arm_hysteresis s' = arm_hysteresis s \<and> states s' = states s)"

text \<open>The state at the arming check of a tick with an active task, and after the takeoff block.\<close>

definition at_arming_check :: "('c, 'd) externals \<Rightarrow> tick_input \<Rightarrow> ('c, 'd) mpc \<Rightarrow> ('c, 'd) mpc" where
  "at_arming_check ext inp s = state_of (gather_inputs ext inp s)"

text \<open>
  For a whole tick that starts in \<open>s\<close>: the state that the arming check reads, and the
  setpoint that the takeoff block is given.
\<close>

abbreviation check_state :: "('c, 'd) externals \<Rightarrow> tick_input \<Rightarrow> ('c, 'd) mpc \<Rightarrow> ('c, 'd) mpc" where
  "check_state ext inp s \<equiv> at_arming_check ext inp (after_head inp s)"

abbreviation tick_setpoint :: "tick_input \<Rightarrow> ('c, 'd) mpc \<Rightarrow> vehicle_local_position_setpoint_s" where
  "tick_setpoint inp s \<equiv> fst (snd (task_setpoint inp (after_head inp s)))"

definition after_takeoff :: "('c, 'd) externals \<Rightarrow> tick_input \<Rightarrow> ('c, 'd) mpc \<Rightarrow> ('c, 'd) mpc" where
  "after_takeoff ext inp s =
     snd (snd (smooth_takeoff (fst (snd (gather_inputs ext inp s)))
                 (fst (snd (snd (gather_inputs ext inp s)))) (at_arming_check ext inp s)))"

text \<open>The state in which the arming step of the tick runs.\<close>

definition before_arming :: "tick_input \<Rightarrow> ('c, 'd) mpc \<Rightarrow> ('c, 'd) mpc" where
  "before_arming inp s =
     (let s = parameters_update False inp (poll_subscriptions inp s)
      in s\<lparr>t_prev := now inp,
           dt := (if t_prev s \<noteq> 0 then Fin (real (unat (now inp - t_prev s)) / 1000000)
                  else Fin (4 / 1000))\<rparr>)"

text \<open>The state in which the tick calls \<^verbatim>\<open>publish_attitude\<close>.\<close>

definition before_publish :: "('c, 'd) externals \<Rightarrow> tick_input \<Rightarrow> ('c, 'd) mpc \<Rightarrow> ('c, 'd) mpc" where
  "before_publish ext inp s =
     (if isAnyTaskActive (flight_tasks (after_head inp s))
      then snd (active_task ext inp (after_head inp s))
      else stay_idle ext (after_head inp s))"

section \<open>Scenarios\<close>

text \<open>
  For evaluating the controller on concrete inputs: a PID core that records the calls it
  receives and answers every query with fixed values, derivative blocks without memory, a
  level attitude conversion, and a parameter set.
\<close>

datatype control_call =
    UpdateConstraints vehicle_constraints_s
  | UpdateState PositionControlStates
  | UpdateSetpoint vehicle_local_position_setpoint_s
  | GenerateThrustYawSetpoint float
  | ResetIntegralXY
  | ResetIntegralZ

definition level_attitude :: "vector3f \<Rightarrow> float \<Rightarrow> vehicle_attitude_setpoint_s" where
  "level_attitude thr y =
     \<lparr>att_timestamp = 0, roll_body = Fin 0, pitch_body = Fin 0, yaw_body = y,
      yaw_sp_move_rate = Fin 0, q_d = (Fin 1, Fin 0, Fin 0, Fin 0), q_d_valid = True,
      thrust = fabsf (vec_2 thr), fw_control_yaw = False, disable_mc_yaw_control = False,
      apply_flaps = False, att_landing_gear = 0\<rparr>"

definition recording :: "vector3f \<Rightarrow> (control_call list, unit) externals" where
  "recording thr =
     \<lparr>updateConstraints = (\<lambda>c calls. calls @ [UpdateConstraints c]),
      updateState = (\<lambda>st calls. calls @ [UpdateState st]),
      updateSetpoint = (\<lambda>sp calls. calls @ [UpdateSetpoint sp]),
      generateThrustYawSetpoint = (\<lambda>d calls. calls @ [GenerateThrustYawSetpoint d]),
      getThrustSetpoint = (\<lambda>calls. thr),
      getPosSp = (\<lambda>calls. vec_zero),
      getVelSp = (\<lambda>calls. vec_zero),
      getYawSetpoint = (\<lambda>calls. Fin 0),
      getYawspeedSetpoint = (\<lambda>calls. Fin 0),
      resetIntegralXY = (\<lambda>calls. calls @ [ResetIntegralXY]),
      resetIntegralZ = (\<lambda>calls. calls @ [ResetIntegralZ]),
      deriv_update = (\<lambda>x d. (Fin 0, d)),
      thrustToAttitude = level_attitude,
      Quatf_of_Eulerf = (\<lambda>r p y. (Fin 1, Fin 0, Fin 0, Fin 0)),
      GEAR_KEEP = 0, GEAR_UP = 1, GEAR_DOWN = 2,
      LANDING_GEAR_UP = 1, LANDING_GEAR_DOWN = 255\<rparr>"

definition scenario_parameters :: parameters where
  "scenario_parameters =
     \<lparr>takeoff_ramp_time = Fin 3, vel_max_up = Fin 3, vel_max_down = Fin 1,
      land_speed = Fin (7 / 10), tko_speed = Fin (3 / 2), MPC_LAND_ALT2 = Fin 5,
      MPC_POS_MODE = 0\<rparr>"

definition fresh :: "(control_call list, unit) mpc" where
  "fresh = MulticopterPositionControl [] () scenario_parameters (Fin 0)"

definition free_setpoint :: vehicle_local_position_setpoint_s where
  "free_setpoint =
     \<lparr>sp_timestamp = 0, sp_x = NaN, sp_y = NaN, sp_z = NaN, sp_yaw = NaN, sp_yawspeed = NaN,
      sp_vx = NaN, sp_vy = NaN, sp_vz = NaN,
      sp_thrust = \<lparr>vec_0 = NaN, vec_1 = NaN, vec_2 = NaN\<rparr>\<rparr>"

text \<open>Scenario S2 of the specification: a climb that would pass the altitude limit.\<close>

definition S2_state :: "(control_call list, unit) mpc" where
  "S2_state =
     fresh\<lparr>vehicle_land_detected :=
             \<lparr>alt_max = Fin 10, landed = False, maybe_landed = False, ground_contact = False\<rparr>,
           home_pos := \<lparr>hp_z = Fin 0, valid_alt = True\<rparr>,
           local_pos := (local_pos fresh)\<lparr>lp_timestamp := 1, lp_z_valid := True, lp_v_z_valid := True,
                                          lp_z := Fin (- (99 / 10))\<rparr>,
           states := (states fresh)\<lparr>position := \<lparr>vec_0 = NaN, vec_1 = NaN, vec_2 = Fin (- (99 / 10))\<rparr>\<rparr>,
           dt := Fin (1 / 10)\<rparr>"

definition S2_setpoint :: vehicle_local_position_setpoint_s where
  "S2_setpoint = free_setpoint\<lparr>sp_vz := Fin (- 2)\<rparr>"

text \<open>A tick input without news: no topic updated, every task call succeeds.\<close>

definition zero_setpoint :: vehicle_local_position_setpoint_s where
  "zero_setpoint =
     \<lparr>sp_timestamp = 0, sp_x = Fin 0, sp_y = Fin 0, sp_z = Fin 0, sp_yaw = Fin 0,
      sp_yawspeed = Fin 0, sp_vx = Fin 0, sp_vy = Fin 0, sp_vz = Fin 0, sp_thrust = vec_zero\<rparr>"

definition free_constraints :: vehicle_constraints_s where
  "free_constraints = \<lparr>speed_up = NaN, min_distance_to_ground = NaN, landing_gear = 0\<rparr>"

definition quiet_input :: "hrt_abstime \<Rightarrow> tick_input" where
  "quiet_input t =
     \<lparr>now = t, new_vehicle_status = None, new_vehicle_land_detected = None,
      new_control_mode = None, new_local_pos = None, new_home_pos = None,
      parameter_update = False, param_store = scenario_parameters,
      activation = (\<lambda>idx. 0), task_update = True,
      getPositionSetpoint = free_setpoint, getConstraints = free_constraints,
      setpoint_uninitialised = zero_setpoint\<rparr>"

definition armed_mode :: vehicle_control_mode_s where
  "armed_mode =
     \<lparr>flag_armed = True, flag_control_auto_enabled = False,
      flag_control_offboard_enabled = False, flag_control_position_enabled = False,
      flag_control_velocity_enabled = False, flag_control_acceleration_enabled = False\<rparr>"

definition disarmed_mode :: vehicle_control_mode_s where
  "disarmed_mode = armed_mode\<lparr>flag_armed := False\<rparr>"

definition multicopter_status :: vehicle_status_s where
  "multicopter_status = \<lparr>nav_state = NAVIGATION_STATE_MANUAL, is_vtol = False\<rparr>"

text \<open>
  A run that starts the loop and sees the vehicle armed at one second, in manual mode and
  before any vehicle status has arrived.
\<close>

definition arming_input :: tick_input where
  "arming_input = (quiet_input 1000000)\<lparr>new_control_mode := Some armed_mode\<rparr>"

definition armed_run :: "(control_call list, unit) mpc" where
  "armed_run = snd (task_main (recording vec_zero) (quiet_input 0) [(1, arming_input)] fresh)"

text \<open>Scenario S1: on the ground, armed long enough, asked to climb to two metres.\<close>

definition landed_now :: vehicle_land_detected_s where
  "landed_now = \<lparr>alt_max = Fin (- 1), landed = True, maybe_landed = False, ground_contact = False\<rparr>"

definition S1_state :: "(control_call list, unit) mpc" where
  "S1_state =
     fresh\<lparr>vehicle_land_detected := landed_now,
           arm_hysteresis := (arm_hysteresis fresh)\<lparr>h_state := True, h_requested_state := True\<rparr>,
           dt := Fin (2 / 100)\<rparr>"

definition S1_entered :: "(control_call list, unit) mpc" where
  "S1_entered = check_for_smooth_takeoff (Fin (- 2)) NaN free_constraints S1_state"

text \<open>
  A takeoff on a velocity setpoint: the pilot asks for a climb of 2 m/s in one tick and for
  a descent of 0.25 m/s in the next (ramp time 2 s, ticks of 1/64 s).
\<close>

definition velocity_takeoff :: "(control_call list, unit) mpc" where
  "velocity_takeoff =
     S1_state\<lparr>params := (params S1_state)\<lparr>takeoff_ramp_time := Fin 2\<rparr>, dt := Fin (1 / 64)\<rparr>"

definition climb_tick :: "(control_call list, unit) mpc" where
  "climb_tick =
     snd (snd (smooth_takeoff (free_setpoint\<lparr>sp_vz := Fin (- 2)\<rparr>) free_constraints velocity_takeoff))"

definition sink_tick :: "(control_call list, unit) mpc" where
  "sink_tick =
     snd (snd (smooth_takeoff (free_setpoint\<lparr>sp_vz := Fin (1 / 4)\<rparr>) free_constraints climb_tick))"

text \<open>Scenario S3 and its variant with both land detector flags set.\<close>

definition S3_thrust :: vector3f where
  "S3_thrust = \<lparr>vec_0 = Fin (3 / 10), vec_1 = Fin (- (1 / 10)), vec_2 = Fin (6 / 10)\<rparr>"

definition S3_state :: "(control_call list, unit) mpc" where
  "S3_state =
     fresh\<lparr>vehicle_land_detected :=
             \<lparr>alt_max = Fin (- 1), landed = False, maybe_landed = False, ground_contact = True\<rparr>\<rparr>"

definition both_flags_state :: "(control_call list, unit) mpc" where
  "both_flags_state =
     fresh\<lparr>vehicle_land_detected :=
             \<lparr>alt_max = Fin (- 1), landed = False, maybe_landed = True, ground_contact = True\<rparr>\<rparr>"

text \<open>A local position sample, and the same sample with the timestamp zero.\<close>

definition sample_state :: "(control_call list, unit) mpc" where
  "sample_state =
     fresh\<lparr>local_pos := (local_pos fresh)\<lparr>lp_timestamp := 1, lp_vz := Fin (1 / 2),
                                           lp_z_deriv := Fin (1 / 4)\<rparr>\<rparr>"

definition unstamped_state :: "(control_call list, unit) mpc" where
  "unstamped_state = fresh\<lparr>local_pos := (local_pos fresh)\<lparr>lp_vz := Fin 1\<rparr>\<rparr>"

text \<open>
  Scenario S6 on the ground and in the air: a task is active and its \<^verbatim>\<open>update\<close> fails.
\<close>

definition S6_input :: tick_input where
  "S6_input = (quiet_input 1500000)\<lparr>task_update := False\<rparr>"

definition S6_ground :: "(control_call list, unit) mpc" where
  "S6_ground =
     fresh\<lparr>control_mode := armed_mode, flight_tasks := \<lparr>current_task = Stabilized\<rparr>,
           vehicle_land_detected := landed_now\<rparr>"

definition S6_air :: "(control_call list, unit) mpc" where
  "S6_air = S6_ground\<lparr>vehicle_land_detected := landed_now\<lparr>landed := False\<rparr>\<rparr>"


text \<open>
  Scenario S1 as ticks: on the ground after the armed run, with a local position sample in
  every tick; the task asks for \<open>z = -2\<close>. \<open>S1_waiting\<close> is the controller at 3.98 s, when the
  arm hysteresis has become true and no climb has been asked for yet.
\<close>

definition ground_sample :: "hrt_abstime \<Rightarrow> vehicle_local_position_s" where
  "ground_sample t =
     \<lparr>lp_timestamp = t, lp_xy_valid = True, lp_z_valid = True, lp_v_xy_valid = True,
      lp_v_z_valid = True, lp_x = Fin 0, lp_y = Fin 0, lp_z = Fin 0, lp_vx = Fin 0,
      lp_vy = Fin 0, lp_vz = Fin 0, lp_z_deriv = Fin 0, lp_yaw = Fin 0\<rparr>"

definition climb_input :: "hrt_abstime \<Rightarrow> tick_input" where
  "climb_input t =
     (quiet_input t)\<lparr>new_vehicle_land_detected := Some landed_now,
                     new_local_pos := Some (ground_sample t),
                     getPositionSetpoint := free_setpoint\<lparr>sp_z := Fin (- 2)\<rparr>\<rparr>"

definition S1_waiting :: "(control_call list, unit) mpc" where
  "S1_waiting =
     snd (tick (recording vec_zero)
            ((quiet_input 3980000)\<lparr>new_vehicle_land_detected := Some landed_now,
                                   new_local_pos := Some (ground_sample 3980000)\<rparr>) armed_run)"

section \<open>Properties\<close>

subsection \<open>Facts about the single-precision operations\<close>

lemma fle_zero_not_flt: "fle (Fin 0) a \<Longrightarrow> \<not> flt a (Fin 0)"
  by (cases a) auto

subsection \<open>Altitude fence\<close>

text \<open>
  Claim C3. Whenever the altitude fence runs (\<open>alt_max \<ge> 0\<close>, home altitude valid, vertical
  velocity valid, vertical position state finite): if the altitude above home exceeds
  \<open>alt_max\<close>, or the setpoint commands a climb (\<open>vz \<le> 0\<close>) with
  \<open>|vz| * dt > alt_max - altitude_above_home\<close>, then afterwards the setpoint has
  \<open>z = - alt_max + home.z\<close> and \<open>vz = 0\<close>. In particular, for \<open>alt_max = 10\<close>, \<open>home.z = 0\<close>,
  \<open>position.z = -9.9\<close>, \<open>setpoint.vz = -2\<close> and \<open>dt = 0.1\<close> the result is \<open>z = -10\<close>, \<open>vz = 0\<close>.
\<close>

theorem limit_altitude_clamps:
  "(fle (Fin 0) (alt_max (vehicle_land_detected s)) \<and> valid_alt (home_pos s)
      \<and> lp_v_z_valid (local_pos s) \<and> isfinite (vec_2 (position (states s)))
      \<and> (fgt (fneg (fsub (vec_2 (position (states s))) (hp_z (home_pos s))))
              (alt_max (vehicle_land_detected s))
          \<or> (fle (sp_vz setpoint) (Fin 0)
              \<and> fgt (fmul (fabsf (sp_vz setpoint)) (dt s))
                     (fsub (alt_max (vehicle_land_detected s))
                           (fneg (fsub (vec_2 (position (states s))) (hp_z (home_pos s)))))))
    \<longrightarrow> sp_z (limit_altitude setpoint s)
          = fadd (fneg (alt_max (vehicle_land_detected s))) (hp_z (home_pos s))
        \<and> sp_vz (limit_altitude setpoint s) = Fin 0)
   \<and> (alt_max (vehicle_land_detected s') = Fin 10 \<and> valid_alt (home_pos s')
        \<and> hp_z (home_pos s') = Fin 0 \<and> lp_v_z_valid (local_pos s')
        \<and> vec_2 (position (states s')) = Fin (- (99 / 10))
        \<and> sp_vz setpoint' = Fin (- 2) \<and> dt s' = Fin (1 / 10)
    \<longrightarrow> sp_z (limit_altitude setpoint' s') = Fin (- 10)
        \<and> sp_vz (limit_altitude setpoint' s') = Fin 0)"
  by (auto simp: limit_altitude_def Let_def fgt_def fsub_def dest: fle_zero_not_flt)

theorem limit_altitude_clamps_witness:
  "fle (Fin 0) (alt_max (vehicle_land_detected S2_state)) \<and> valid_alt (home_pos S2_state)
     \<and> lp_v_z_valid (local_pos S2_state) \<and> isfinite (vec_2 (position (states S2_state)))
     \<and> fle (sp_vz S2_setpoint) (Fin 0)
     \<and> fgt (fmul (fabsf (sp_vz S2_setpoint)) (dt S2_state))
            (fsub (alt_max (vehicle_land_detected S2_state))
               (fneg (fsub (vec_2 (position (states S2_state))) (hp_z (home_pos S2_state)))))
     \<and> sp_z (limit_altitude S2_setpoint S2_state) = Fin (- 10)
     \<and> sp_vz (limit_altitude S2_setpoint S2_state) = Fin 0"
  using limit_altitude_clamps [of S2_state S2_setpoint S2_state S2_setpoint]
  by (simp add: S2_state_def S2_setpoint_def free_setpoint_def fresh_def
        MulticopterPositionControl_def fgt_def fsub_def)


subsection \<open>Thrust while landing\<close>

text \<open>
  Claim C4, amended. When the landing shaper runs on a thrust vector of the PID core: if
  \<open>ground_contact\<close> is set and \<open>maybe_landed\<close> is not, thrust x and y become 0, thrust z is
  kept, and the only thing done to the PID core is the reset of its XY integral; if
  \<open>maybe_landed\<close> is set, the thrust vector becomes \<open>(0, 0, 0)\<close> and the XY and the Z
  integral are reset (the XY integral twice when \<open>ground_contact\<close> is set as well).
\<close>

theorem landing_thrust:
  "(ground_contact (vehicle_land_detected s) \<and> \<not> maybe_landed (vehicle_land_detected s) \<longrightarrow>
      limit_thrust_during_landing ext thr_sp s
        = (thr_sp\<lparr>vec_0 := Fin 0, vec_1 := Fin 0\<rparr>, s\<lparr>control := resetIntegralXY ext (control s)\<rparr>))
   \<and> (maybe_landed (vehicle_land_detected s) \<longrightarrow>
        fst (limit_thrust_during_landing ext thr_sp s) = vec_zero
        \<and> control (snd (limit_thrust_during_landing ext thr_sp s))
            = resetIntegralZ ext (resetIntegralXY ext
                (if ground_contact (vehicle_land_detected s) then resetIntegralXY ext (control s)
                 else control s)))"
  by (simp add: limit_thrust_during_landing_def Let_def)

text \<open>Scenario S3: ground contact alone, with the thrust \<open>(0.3, -0.1, 0.6)\<close>.\<close>

theorem landing_thrust_witness:
  "ground_contact (vehicle_land_detected S3_state) \<and> \<not> maybe_landed (vehicle_land_detected S3_state)
   \<and> fst (limit_thrust_during_landing (recording S3_thrust) S3_thrust S3_state)
       = \<lparr>vec_0 = Fin 0, vec_1 = Fin 0, vec_2 = Fin (6 / 10)\<rparr>
   \<and> control (snd (limit_thrust_during_landing (recording S3_thrust) S3_thrust S3_state))
       = [ResetIntegralXY]"
  using landing_thrust [of S3_state "recording S3_thrust" S3_thrust]
  by (simp add: S3_state_def S3_thrust_def fresh_def MulticopterPositionControl_def recording_def)

text \<open>
  With both flags set, ground contact does not keep the vertical thrust: the thrust
  \<open>(0.3, -0.1, 0.6)\<close> becomes zero and the Z integral is reset.
\<close>

theorem landing_thrust_counterexample:
  "ground_contact (vehicle_land_detected both_flags_state)
   \<and> vec_2 S3_thrust = Fin (6 / 10)
   \<and> vec_2 (fst (limit_thrust_during_landing (recording S3_thrust) S3_thrust both_flags_state)) = Fin 0
   \<and> control (snd (limit_thrust_during_landing (recording S3_thrust) S3_thrust both_flags_state))
       = [ResetIntegralXY, ResetIntegralXY, ResetIntegralZ]"
  by (simp add: limit_thrust_during_landing_def both_flags_state_def S3_thrust_def fresh_def
        MulticopterPositionControl_def recording_def vec_zero_def Let_def)

subsection \<open>Smooth takeoff\<close>

lemma math_min_not_above: "\<not> fgt (math_min a b) b"
  by (cases a; cases b) (auto simp: math_min_def fgt_def)

lemma fle_fadd_nonneg: "fle (Fin 0) i \<Longrightarrow> fadd a i \<noteq> NaN \<Longrightarrow> fle a (fadd a i)"
  by (cases a; cases i) auto

lemma fle_math_min: "fle a x \<Longrightarrow> fle a d \<Longrightarrow> fle a (math_min x d)"
  by (simp add: math_min_def)

lemma math_min_NaN: "math_min NaN d = d"
  by (simp add: math_min_def)

lemma takeoff_speed_update:
  "in_smooth_takeoff s \<Longrightarrow>
   takeoff_speed (update_smooth_takeoff z_sp vz_sp s) =
     math_min (fadd (takeoff_speed s)
                 (fdiv (fmul (desired_tko_speed z_sp vz_sp s) (dt s)) (takeoff_ramp_time (params s))))
              (desired_tko_speed z_sp vz_sp s)"
  by (simp add: update_smooth_takeoff_def desired_tko_speed_def Let_def)

text \<open>
  Claim C6, amended. In every ramp update of a smooth takeoff the new ramp value does not
  exceed the desired speed of that tick (the takeoff speed parameter when \<open>z_sp\<close> is finite,
  otherwise \<open>- vz_sp\<close>); and the ramp value does not decrease in a tick in which the old
  ramp value is not above the desired speed and the increment
  \<open>desired * dt / takeoff_ramp_time\<close> is not negative.
\<close>

theorem takeoff_ramp:
  "in_smooth_takeoff s \<longrightarrow>
     \<not> fgt (takeoff_speed (update_smooth_takeoff z_sp vz_sp s)) (desired_tko_speed z_sp vz_sp s)
     \<and> (fle (takeoff_speed s) (desired_tko_speed z_sp vz_sp s)
         \<and> fle (Fin 0) (fdiv (fmul (desired_tko_speed z_sp vz_sp s) (dt s)) (takeoff_ramp_time (params s)))
        \<longrightarrow> fle (takeoff_speed s) (takeoff_speed (update_smooth_takeoff z_sp vz_sp s)))"
proof (intro impI conjI)
  assume a: "in_smooth_takeoff s"
  show "\<not> fgt (takeoff_speed (update_smooth_takeoff z_sp vz_sp s)) (desired_tko_speed z_sp vz_sp s)"
    by (simp add: takeoff_speed_update [OF a] math_min_not_above)
next
  assume a: "in_smooth_takeoff s"
  assume b: "fle (takeoff_speed s) (desired_tko_speed z_sp vz_sp s)
         \<and> fle (Fin 0) (fdiv (fmul (desired_tko_speed z_sp vz_sp s) (dt s)) (takeoff_ramp_time (params s)))"
  let ?i = "fdiv (fmul (desired_tko_speed z_sp vz_sp s) (dt s)) (takeoff_ramp_time (params s))"
  show "fle (takeoff_speed s) (takeoff_speed (update_smooth_takeoff z_sp vz_sp s))"
  proof (cases "fadd (takeoff_speed s) ?i = NaN")
    case True
    then show ?thesis using b by (simp add: takeoff_speed_update [OF a] math_min_NaN)
  next
    case False
    then have "fle (takeoff_speed s) (fadd (takeoff_speed s) ?i)"
      using b fle_fadd_nonneg by blast
    then show ?thesis using b by (simp add: takeoff_speed_update [OF a] fle_math_min)
  qed
qed

text \<open>
  Scenario S1 after the entry: the ramp starts at \<open>-0.5\<close>, the desired speed is \<open>1.5\<close> and
  the increment is \<open>1.5 * 0.02 / 3\<close>.
\<close>

theorem takeoff_ramp_witness:
  "in_smooth_takeoff S1_entered
   \<and> takeoff_speed S1_entered = Fin (- (1 / 2))
   \<and> desired_tko_speed (Fin (- 2)) NaN S1_entered = Fin (3 / 2)
   \<and> fdiv (fmul (desired_tko_speed (Fin (- 2)) NaN S1_entered) (dt S1_entered))
           (takeoff_ramp_time (params S1_entered)) = Fin (1 / 100)
   \<and> \<not> fgt (takeoff_speed (update_smooth_takeoff (Fin (- 2)) NaN S1_entered))
            (desired_tko_speed (Fin (- 2)) NaN S1_entered)
   \<and> fle (takeoff_speed S1_entered)
          (takeoff_speed (update_smooth_takeoff (Fin (- 2)) NaN S1_entered))"
proof -
  have e: "in_smooth_takeoff S1_entered" "takeoff_speed S1_entered = Fin (- (1 / 2))"
    "desired_tko_speed (Fin (- 2)) NaN S1_entered = Fin (3 / 2)"
    "fdiv (fmul (desired_tko_speed (Fin (- 2)) NaN S1_entered) (dt S1_entered))
           (takeoff_ramp_time (params S1_entered)) = Fin (1 / 100)"
    by (simp_all add: S1_entered_def check_for_smooth_takeoff_def desired_tko_speed_def
          S1_state_def landed_now_def free_constraints_def fresh_def MulticopterPositionControl_def
          scenario_parameters_def vec_zero_def fsub_def math_min_def Let_def)
  then show ?thesis
    using takeoff_ramp [of S1_entered "Fin (- 2)" NaN] by simp
qed

text \<open>
  The ramp value can decrease within one takeoff. The takeoff starts on the velocity
  setpoint \<open>-2\<close> and the first update gives \<open>-0.5 + 2 * (1/64) / 2 = -31/64\<close>; in the next tick
  the velocity setpoint is \<open>0.25\<close>, the desired speed \<open>-0.25\<close>, and the second update gives
  \<open>-31/64 - 0.25 * (1/64) / 2 = -249/512\<close>, with the takeoff still going on.
\<close>

theorem takeoff_ramp_counterexample:
  "landed (vehicle_land_detected velocity_takeoff) \<and> \<not> in_smooth_takeoff velocity_takeoff
   \<and> in_smooth_takeoff climb_tick \<and> takeoff_speed climb_tick = Fin (- (31 / 64))
   \<and> in_smooth_takeoff sink_tick \<and> takeoff_speed sink_tick = Fin (- (249 / 512))
   \<and> flt (takeoff_speed sink_tick) (takeoff_speed climb_tick)"
proof -
  have c: "climb_tick = velocity_takeoff\<lparr>in_smooth_takeoff := True, takeoff_speed := Fin (- (31 / 64))\<rparr>"
    by (simp add: climb_tick_def smooth_takeoff_def check_for_smooth_takeoff_def
          update_smooth_takeoff_def velocity_takeoff_def S1_state_def landed_now_def
          free_setpoint_def free_constraints_def fresh_def MulticopterPositionControl_def
          scenario_parameters_def vec_zero_def get_state_def set_hysteresis_time_from_def
          Hysteresis_init_def fsub_def math_min_def Let_def)
  have s: "sink_tick = velocity_takeoff\<lparr>in_smooth_takeoff := True, takeoff_speed := Fin (- (249 / 512))\<rparr>"
    by (simp add: sink_tick_def c smooth_takeoff_def check_for_smooth_takeoff_def
          update_smooth_takeoff_def velocity_takeoff_def S1_state_def landed_now_def
          free_setpoint_def free_constraints_def fresh_def MulticopterPositionControl_def
          scenario_parameters_def vec_zero_def get_state_def set_hysteresis_time_from_def
          Hysteresis_init_def fsub_def math_min_def Let_def)
  show ?thesis
    by (simp add: c s) (simp add: velocity_takeoff_def S1_state_def landed_now_def fresh_def
          MulticopterPositionControl_def)
qed

subsection \<open>State validation\<close>

text \<open>
  Claim C9, amended. In every call of \<^verbatim>\<open>check_vehicle_states\<close> on a sample that has been
  received (timestamp not zero) and has a finite raw \<open>vz\<close>, the resulting vertical velocity
  state is the raw \<open>vz\<close>, whatever the velocity setpoint and \<open>z_deriv\<close> are: the blended
  value is overwritten.
\<close>

theorem vertical_velocity_state:
  "lp_timestamp (local_pos s) \<noteq> 0 \<and> isfinite (lp_vz (local_pos s)) \<longrightarrow>
     vec_2 (velocity (states (check_vehicle_states ext vel_sp_z s))) = lp_vz (local_pos s)"
  by (simp add: check_vehicle_states_def Let_def split: prod.splits)

text \<open>A sample with \<open>vz = 0.5\<close> and \<open>z_deriv = 0.25\<close> under the velocity setpoint \<open>-1\<close>.\<close>

theorem vertical_velocity_state_witness:
  "lp_timestamp (local_pos sample_state) \<noteq> 0 \<and> isfinite (lp_vz (local_pos sample_state))
   \<and> lp_vz (local_pos sample_state) = Fin (1 / 2)
   \<and> vec_2 (velocity (states (check_vehicle_states (recording vec_zero) (Fin (- 1)) sample_state)))
       = Fin (1 / 2)"
  using vertical_velocity_state [of sample_state "recording vec_zero" "Fin (- 1)"]
  by (simp add: sample_state_def fresh_def MulticopterPositionControl_def)

text \<open>
  A sample with the timestamp zero is not looked at: the raw \<open>vz\<close> is \<open>1\<close>, finite, and the
  vertical velocity state stays \<open>0\<close>.
\<close>

theorem vertical_velocity_state_counterexample:
  "isfinite (lp_vz (local_pos unstamped_state)) \<and> lp_vz (local_pos unstamped_state) = Fin 1
   \<and> vec_2 (velocity (states (check_vehicle_states (recording vec_zero) NaN unstamped_state)))
       = Fin 0"
  by (simp add: check_vehicle_states_def unstamped_state_def fresh_def
        MulticopterPositionControl_def vec_zero_def)


subsection \<open>What the steps of a tick leave unchanged\<close>

lemma attitude_published_simps [simp]:
  "attitude_published [] = False"
  "attitude_published (e # ev) = (is_attitude_setpoint e \<or> attitude_published ev)"
  "attitude_published (ev @ ev') = (attitude_published ev \<or> attitude_published ev')"
  by (auto simp: attitude_published_def list_ex_iff)

lemma tasks_only_refl: "tasks_only s s"
  by (simp add: tasks_only_def)

lemma tasks_only_trans: "tasks_only s s' \<Longrightarrow> tasks_only s' s'' \<Longrightarrow> tasks_only s s''"
  unfolding tasks_only_def by (metis (no_types, lifting) mpc.surjective mpc.update_convs(17,20))

lemma tasks_only_switch_to: "tasks_only s (snd (switch_to inp idx s))"
  by (simp add: tasks_only_def switch_to_def split: prod.splits)

lemma tasks_only_warn: "tasks_only s (snd (warn_rate_limited str t s))"
  by (simp add: tasks_only_def warn_rate_limited_def)

lemma warn_events: "\<not> attitude_published (fst (warn_rate_limited str t s))"
  by (simp add: warn_rate_limited_def)

lemma quiet_try_task:
  assumes "quiet s x"
  shows "quiet s (try_task inp idx msg clears x)"
proof -
  obtain f ev s1 where x: "x = (f, ev, s1)" by (cases x) auto
  from assms x have t1: "tasks_only s s1" and e1: "\<not> attitude_published ev"
    by (auto simp: quiet_def)
  have "tasks_only s (snd (switch_to inp idx s1))"
    by (rule tasks_only_trans [OF t1 tasks_only_switch_to])
  then show ?thesis
    using e1 by (simp add: quiet_def try_task_def x Let_def case_prod_beta)
qed

lemma quiet_start:
  "quiet s x \<Longrightarrow> quiet s (start_offboard inp x)"
  "quiet s x \<Longrightarrow> quiet s (start_auto inp x)"
  "quiet s x \<Longrightarrow> quiet s (start_position inp x)"
  "quiet s x \<Longrightarrow> quiet s (start_altitude inp x)"
  "quiet s x \<Longrightarrow> quiet s (start_stabilized inp x)"
  by (simp_all add: start_offboard_def start_auto_def start_position_def start_altitude_def
        start_stabilized_def quiet_try_task)

lemma start_flight_task_quiet:
  "tasks_only s (snd (start_flight_task inp s)) \<and> \<not> attitude_published (fst (start_flight_task inp s))"
proof -
  let ?x = "start_stabilized inp (start_altitude inp (start_position inp
             (start_auto inp (start_offboard inp (False, [], s)))))"
  have "quiet s (False, [], s)" by (simp add: quiet_def tasks_only_refl)
  then have q: "quiet s ?x" by (intro quiet_start)
  obtain f ev s1 where x: "?x = (f, ev, s1)" by (cases ?x) auto
  from q x have t1: "tasks_only s s1" and e1: "\<not> attitude_published ev" by (auto simp: quiet_def)
  have t2: "tasks_only s1 (snd (switch_to inp None_task s1))" by (rule tasks_only_switch_to)
  have t3: "tasks_only (snd (switch_to inp None_task s1))
      (snd (warn_rate_limited ''No Flighttask is running'' (now inp) (snd (switch_to inp None_task s1))))"
    by (rule tasks_only_warn)
  show ?thesis
    using t1 e1 tasks_only_trans [OF t1 tasks_only_trans [OF t2 t3]]
      warn_events [of "''No Flighttask is running''" "now inp" "snd (switch_to inp None_task s1)"]
    by (simp add: start_flight_task_def x Let_def case_prod_beta)
qed

lemma tasks_only_fields:
  assumes "tasks_only s s'"
  shows "arm_hysteresis s' = arm_hysteresis s" "control_mode s' = control_mode s"
    "in_smooth_takeoff s' = in_smooth_takeoff s" "takeoff_speed s' = takeoff_speed s"
    "states s' = states s" "control s' = control s" "att_sp_pub s' = att_sp_pub s"
    "attitude_setpoint_id s' = attitude_setpoint_id s" "dt s' = dt s"
    "vehicle_land_detected s' = vehicle_land_detected s"
  by (subst assms [unfolded tasks_only_def], simp)+

lemma poll_subscriptions_fields:
  "att_sp_pub (poll_subscriptions inp s) = att_sp_pub s"
  "arm_hysteresis (poll_subscriptions inp s) = arm_hysteresis s"
  "flight_tasks (poll_subscriptions inp s) = flight_tasks s"
  "states (poll_subscriptions inp s) = states s"
  "control (poll_subscriptions inp s) = control s"
  "same_takeoff s (poll_subscriptions inp s)"
  by (simp_all add: poll_subscriptions_def same_takeoff_def Let_def split: option.splits)

lemma parameters_update_fields:
  "same_publication s (parameters_update force inp s)"
  "same_takeoff s (parameters_update force inp s)"
  "same_arming s (parameters_update force inp s)"
  "control (parameters_update force inp s) = control s"
  by (simp_all add: parameters_update_def same_publication_def same_takeoff_def same_arming_def Let_def)

lemma task_setpoint_fields:
  "tasks_only s (snd (snd (task_setpoint inp s)))"
  "\<not> attitude_published (fst (task_setpoint inp s))"
  using tasks_only_warn [of s] warn_events [of _ _ s]
  by (simp_all add: task_setpoint_def Let_def case_prod_beta tasks_only_refl)

lemma check_vehicle_states_fields:
  "same_publication s (check_vehicle_states ext v s)"
  "same_takeoff s (check_vehicle_states ext v s)"
  "arm_hysteresis (check_vehicle_states ext v s) = arm_hysteresis s"
  "control (check_vehicle_states ext v s) = control s"
  "dt (check_vehicle_states ext v s) = dt s"
  by (simp_all add: check_vehicle_states_def same_publication_def same_takeoff_def Let_def case_prod_beta)

lemma gather_inputs_fields:
  "same_publication s (state_of (gather_inputs ext inp s))"
  "same_takeoff s (state_of (gather_inputs ext inp s))"
  "control (state_of (gather_inputs ext inp s)) = control s"
  "dt (state_of (gather_inputs ext inp s)) = dt s"
  "arm_hysteresis (state_of (gather_inputs ext inp s))
     = set_state_and_update (flag_armed (control_mode s)) (now inp) (arm_hysteresis s)"
  "\<not> attitude_published (fst (gather_inputs ext inp s))"
proof -
  let ?s1 = "snd (snd (task_setpoint inp s))"
  let ?v = "sp_vz (fst (snd (task_setpoint inp s)))"
  let ?s2 = "check_vehicle_states ext ?v ?s1"
  have g: "state_of (gather_inputs ext inp s)
      = ?s2\<lparr>arm_hysteresis := set_state_and_update (flag_armed (control_mode ?s2)) (now inp) (arm_hysteresis ?s2)\<rparr>"
    by (simp add: gather_inputs_def Let_def case_prod_beta)
  have t: "tasks_only s ?s1" by (rule task_setpoint_fields)
  note f1 = tasks_only_fields [OF t]
  have f2: "same_publication ?s1 ?s2" "same_takeoff ?s1 ?s2" "arm_hysteresis ?s2 = arm_hysteresis ?s1"
    "control ?s2 = control ?s1" "dt ?s2 = dt ?s1"
    by (rule check_vehicle_states_fields)+
  have ft: "flight_tasks ?s1 = flight_tasks s"
    by (simp add: task_setpoint_def warn_rate_limited_def Let_def case_prod_beta)
  show "same_publication s (state_of (gather_inputs ext inp s))"
    using f1 f2 ft unfolding g same_publication_def by simp
  show "same_takeoff s (state_of (gather_inputs ext inp s))"
    using f1 f2 unfolding g same_takeoff_def by simp
  show "control (state_of (gather_inputs ext inp s)) = control s"
    using f1 f2 unfolding g by simp
  show "dt (state_of (gather_inputs ext inp s)) = dt s"
    using f1 f2 unfolding g by simp
  show "arm_hysteresis (state_of (gather_inputs ext inp s))
     = set_state_and_update (flag_armed (control_mode s)) (now inp) (arm_hysteresis s)"
    using f1 f2 unfolding g same_publication_def by simp
  show "\<not> attitude_published (fst (gather_inputs ext inp s))"
    using task_setpoint_fields(2) [of inp s]
    by (simp add: gather_inputs_def Let_def case_prod_beta)
qed

lemma smooth_takeoff_fields:
  "same_publication s (snd (snd (smooth_takeoff sp c s)))"
  "same_arming s (snd (snd (smooth_takeoff sp c s)))"
  "control (snd (snd (smooth_takeoff sp c s))) = control s"
  "dt (snd (snd (smooth_takeoff sp c s))) = dt s"
  by (simp_all add: smooth_takeoff_def check_for_smooth_takeoff_def update_smooth_takeoff_def
        same_publication_def same_arming_def Let_def)

lemma run_control_fields:
  "same_publication s (snd (run_control ext sp c s))"
  "same_takeoff s (snd (run_control ext sp c s))"
  "same_arming s (snd (run_control ext sp c s))"
  by (simp_all add: run_control_def limit_thrust_during_landing_def same_publication_def
        same_takeoff_def same_arming_def Let_def)

lemma fill_setpoints_fields:
  "same_publication s (fill_setpoints ext t thr c s)"
  "same_takeoff s (fill_setpoints ext t thr c s)"
  "same_arming s (fill_setpoints ext t thr c s)"
  "control (fill_setpoints ext t thr c s) = control s"
  by (simp_all add: fill_setpoints_def same_publication_def same_takeoff_def same_arming_def Let_def)

lemma publish_local_pos_sp_fields:
  "same_publication s (snd (publish_local_pos_sp t s))"
  "same_takeoff s (snd (publish_local_pos_sp t s))"
  "same_arming s (snd (publish_local_pos_sp t s))"
  "control (snd (publish_local_pos_sp t s)) = control s"
  "\<not> attitude_published (fst (publish_local_pos_sp t s))"
  by (simp_all add: publish_local_pos_sp_def same_publication_def same_takeoff_def same_arming_def Let_def)

lemma stay_idle_fields:
  "same_publication s (stay_idle ext s)"
  "same_takeoff s (stay_idle ext s)"
  "same_arming s (stay_idle ext s)"
  "control (stay_idle ext s) = control s"
  by (simp_all add: stay_idle_def same_publication_def same_takeoff_def same_arming_def Let_def)

lemma publish_attitude_fields:
  "attitude_setpoint_id (snd (publish_attitude t s)) = attitude_setpoint_id s"
  "control_mode (snd (publish_attitude t s)) = control_mode s"
  "flight_tasks (snd (publish_attitude t s)) = flight_tasks s"
  "same_takeoff s (snd (publish_attitude t s))"
  "same_arming s (snd (publish_attitude t s))"
  "control (snd (publish_attitude t s)) = control s"
  by (simp_all add: publish_attitude_def same_takeoff_def same_arming_def Let_def split: option.splits)

lemma publish_attitude_events:
  "attitude_published (fst (publish_attitude t s)) \<longleftrightarrow>
     get_state (arm_hysteresis s)
     \<and> \<not> (flag_control_offboard_enabled (control_mode s)
           \<and> \<not> (flag_control_position_enabled (control_mode s)
                 \<or> flag_control_velocity_enabled (control_mode s)
                 \<or> flag_control_acceleration_enabled (control_mode s)))
     \<and> (att_sp_pub s \<or> attitude_setpoint_id s \<noteq> None)"
  by (simp add: publish_attitude_def Let_def split: option.splits)

lemma control_inputs_state:
  "state_of (control_inputs ext inp s) = after_takeoff ext inp s"
  "fst (control_inputs ext inp s) = fst (gather_inputs ext inp s)"
  by (simp_all add: control_inputs_def after_takeoff_def at_arming_check_def Let_def case_prod_beta)

lemma active_task_fields:
  "same_publication s (snd (active_task ext inp s))"
  "same_takeoff (after_takeoff ext inp s) (snd (active_task ext inp s))"
  "same_arming (at_arming_check ext inp s) (snd (active_task ext inp s))"
  "\<not> attitude_published (fst (active_task ext inp s))"
proof -
  let ?C = "control_inputs ext inp s"
  let ?R = "run_control ext (fst (snd ?C)) (fst (snd (snd ?C))) (state_of ?C)"
  let ?F = "fill_setpoints ext (now inp) (fst ?R) (fst (snd (snd ?C))) (snd ?R)"
  let ?P = "publish_local_pos_sp (now inp) ?F"
  have a: "snd (active_task ext inp s) = snd ?P" "fst (active_task ext inp s) = fst ?C @ fst ?P"
    by (simp_all add: active_task_def Let_def case_prod_beta)
  have p1: "same_publication s (at_arming_check ext inp s)"
    unfolding at_arming_check_def by (rule gather_inputs_fields)
  have p2: "same_publication (at_arming_check ext inp s) (after_takeoff ext inp s)"
    unfolding after_takeoff_def by (rule smooth_takeoff_fields)
  have p3: "same_publication (after_takeoff ext inp s) (snd ?R)"
    unfolding control_inputs_state by (rule run_control_fields)
  have p4: "same_publication (snd ?R) ?F" by (rule fill_setpoints_fields)
  have p5: "same_publication ?F (snd ?P)" by (rule publish_local_pos_sp_fields)
  show "same_publication s (snd (active_task ext inp s))"
    unfolding a using p1 p2 p3 p4 p5 by (simp add: same_publication_def)
  have t3: "same_takeoff (after_takeoff ext inp s) (snd ?R)"
    unfolding control_inputs_state by (rule run_control_fields)
  have t4: "same_takeoff (snd ?R) ?F" by (rule fill_setpoints_fields)
  have t5: "same_takeoff ?F (snd ?P)" by (rule publish_local_pos_sp_fields)
  show "same_takeoff (after_takeoff ext inp s) (snd (active_task ext inp s))"
    unfolding a using t3 t4 t5 by (simp add: same_takeoff_def)
  have a2: "same_arming (at_arming_check ext inp s) (after_takeoff ext inp s)"
    unfolding after_takeoff_def by (rule smooth_takeoff_fields)
  have a3: "same_arming (after_takeoff ext inp s) (snd ?R)"
    unfolding control_inputs_state by (rule run_control_fields)
  have a4: "same_arming (snd ?R) ?F" by (rule fill_setpoints_fields)
  have a5: "same_arming ?F (snd ?P)" by (rule publish_local_pos_sp_fields)
  show "same_arming (at_arming_check ext inp s) (snd (active_task ext inp s))"
    unfolding a using a2 a3 a4 a5 by (simp add: same_arming_def)
  show "\<not> attitude_published (fst (active_task ext inp s))"
    unfolding a control_inputs_state(2)
    using gather_inputs_fields(6) [where ext = ext and inp = inp and s = s] publish_local_pos_sp_fields(5) [where t = "now inp" and s = ?F]
    by simp
qed

lemma tick_head_arming: "tick_head inp s = arming inp (before_arming inp s)"
  by (simp add: tick_head_def before_arming_def Let_def)

lemma before_arming_fields:
  "control_mode (before_arming inp s) = control_mode (poll_subscriptions inp s)"
  "attitude_setpoint_id (before_arming inp s) = attitude_setpoint_id (poll_subscriptions inp s)"
  "att_sp_pub (before_arming inp s) = att_sp_pub s"
  "arm_hysteresis (before_arming inp s) = arm_hysteresis s"
  "states (before_arming inp s) = states s"
  "control (before_arming inp s) = control s"
  "same_takeoff s (before_arming inp s)"
  using parameters_update_fields [where s = "poll_subscriptions inp s" and force = False and inp = inp]
    poll_subscriptions_fields [where s = s and inp = inp]
  by (simp_all add: before_arming_def Let_def same_publication_def same_takeoff_def same_arming_def)

lemma arming_fields:
  "control_mode (snd (arming inp s)) = control_mode s"
  "attitude_setpoint_id (snd (arming inp s)) = attitude_setpoint_id s"
  "att_sp_pub (snd (arming inp s)) = att_sp_pub s"
  "states (snd (arming inp s)) = states s"
  "control (snd (arming inp s)) = control s"
  "same_takeoff s (snd (arming inp s))"
  "\<not> attitude_published (fst (arming inp s))"
  "arm_hysteresis (snd (arming inp s))
     = (if flag_armed (control_mode s) then arm_hysteresis s
        else set_state_and_update False (now inp) (arm_hysteresis s))"
  "\<not> flag_armed (control_mode s) \<Longrightarrow> current_task (flight_tasks (snd (arming inp s))) = None_task"
  using start_flight_task_quiet [where s = s and inp = inp]
    tasks_only_fields [where s = s and s' = "snd (start_flight_task inp s)"]
    tasks_only_fields [OF tasks_only_switch_to [where s = s and inp = inp and idx = None_task]]
  by (simp_all add: arming_def Let_def case_prod_beta same_takeoff_def switch_to_def switchTask_def)

lemma tick_state: "snd (tick ext inp s) = snd (publish_attitude (now inp) (before_publish ext inp s))"
  by (simp add: tick_def before_publish_def Let_def case_prod_beta)

lemma tick_events:
  "attitude_published (fst (tick ext inp s))
     = attitude_published (fst (publish_attitude (now inp) (before_publish ext inp s)))"
  using arming_fields(7) [where inp = inp and s = "before_arming inp s"]
    active_task_fields(4) [where ext = ext and inp = inp and s = "snd (tick_head inp s)"]
  by (simp add: tick_def before_publish_def Let_def case_prod_beta tick_head_arming)

lemma set_state_and_update_False:
  "h_time_from_true_us h = 0 \<Longrightarrow> \<not> get_state (set_state_and_update False t h)"
  by (simp add: set_state_and_update_def hysteresis_update_def get_state_def Let_def)

lemma set_state_and_update_time:
  "h_time_from_true_us (set_state_and_update b t h) = h_time_from_true_us h"
  by (simp add: set_state_and_update_def hysteresis_update_def Let_def)

lemma tick_head_fields:
  "control_mode (snd (tick_head inp s)) = control_mode (poll_subscriptions inp s)"
  "attitude_setpoint_id (snd (tick_head inp s)) = attitude_setpoint_id (poll_subscriptions inp s)"
  "att_sp_pub (snd (tick_head inp s)) = att_sp_pub s"
  "states (snd (tick_head inp s)) = states s"
  "control (snd (tick_head inp s)) = control s"
  "same_takeoff s (snd (tick_head inp s))"
  "arm_hysteresis (snd (tick_head inp s))
     = (if flag_armed (control_mode (poll_subscriptions inp s)) then arm_hysteresis s
        else set_state_and_update False (now inp) (arm_hysteresis s))"
  "\<not> flag_armed (control_mode (poll_subscriptions inp s))
     \<Longrightarrow> current_task (flight_tasks (snd (tick_head inp s))) = None_task"
  using arming_fields [where inp = inp and s = "before_arming inp s"] before_arming_fields [where inp = inp and s = s]
  by (simp_all add: tick_head_arming same_takeoff_def)

lemma before_publish_fields:
  "control_mode (before_publish ext inp s) = control_mode (poll_subscriptions inp s)"
  "attitude_setpoint_id (before_publish ext inp s) = attitude_setpoint_id (poll_subscriptions inp s)"
  "att_sp_pub (before_publish ext inp s) = att_sp_pub s"
  "flight_tasks (before_publish ext inp s) = flight_tasks (snd (tick_head inp s))"
  using active_task_fields(1) [where ext = ext and inp = inp and s = "snd (tick_head inp s)"]
    stay_idle_fields(1) [where ext = ext and s = "snd (tick_head inp s)"] tick_head_fields [where inp = inp and s = s]
  by (simp_all add: before_publish_def same_publication_def)

lemma before_publish_hysteresis:
  "arm_hysteresis (before_publish ext inp s)
     = (if isAnyTaskActive (flight_tasks (snd (tick_head inp s)))
        then set_state_and_update (flag_armed (control_mode (poll_subscriptions inp s))) (now inp)
               (arm_hysteresis (snd (tick_head inp s)))
        else arm_hysteresis (snd (tick_head inp s)))"
  using active_task_fields(3) [where ext = ext and inp = inp and s = "snd (tick_head inp s)"]
    gather_inputs_fields(5) [where ext = ext and inp = inp and s = "snd (tick_head inp s)"]
    stay_idle_fields(3) [where ext = ext and s = "snd (tick_head inp s)"] tick_head_fields(1) [where inp = inp and s = s]
  by (simp add: before_publish_def same_arming_def at_arming_check_def)

lemma tick_hysteresis_time:
  "h_time_from_true_us (arm_hysteresis (snd (tick ext inp s)))
     = h_time_from_true_us (arm_hysteresis s)"
  using publish_attitude_fields(5) [where s = "before_publish ext inp s" and t = "now inp"]
  by (simp add: tick_state same_arming_def before_publish_hysteresis tick_head_fields(7)
        set_state_and_update_time)

lemma task_main_loop_hysteresis_time:
  "h_time_from_true_us (arm_hysteresis (snd (task_main_loop ext passes s)))
     = h_time_from_true_us (arm_hysteresis s)"
proof (induction passes arbitrary: s)
  case Nil
  show ?case by simp
next
  case (Cons pass passes)
  have "h_time_from_true_us (arm_hysteresis (snd (loop_pass ext pass s)))
      = h_time_from_true_us (arm_hysteresis s)"
    by (simp add: loop_pass_def tick_hysteresis_time)
  then show ?case using Cons.IH [of "snd (loop_pass ext pass s)"]
    by (simp add: case_prod_beta Let_def)
qed

lemma task_main_hysteresis_time:
  "h_time_from_true_us
     (arm_hysteresis (snd (task_main ext inp passes (MulticopterPositionControl c d p y)))) = 0"
proof -
  have "arm_hysteresis (poll_subscriptions inp (parameters_update True inp (MulticopterPositionControl c d p y)))
      = arm_hysteresis (MulticopterPositionControl c d p y)"
    using parameters_update_fields(3) [where s = "MulticopterPositionControl c d p y" and force = True and inp = inp]
    by (simp add: poll_subscriptions_fields same_arming_def)
  then show ?thesis
    by (simp add: task_main_def Let_def task_main_loop_hysteresis_time
          MulticopterPositionControl_def set_hysteresis_time_from_def Hysteresis_init_def)
qed

lemma tick_when_disarmed:
  assumes "h_time_from_true_us (arm_hysteresis s) = 0"
    and "\<not> flag_armed (control_mode (poll_subscriptions inp s))"
  shows "current_task (flight_tasks (snd (tick ext inp s))) = None_task"
    and "\<not> get_state (arm_hysteresis (snd (tick ext inp s)))"
    and "\<not> attitude_published (fst (tick ext inp s))"
proof -
  have idle: "\<not> isAnyTaskActive (flight_tasks (snd (tick_head inp s)))"
    using tick_head_fields(8) [OF assms(2)] by (simp add: isAnyTaskActive_def)
  have h: "\<not> get_state (arm_hysteresis (before_publish ext inp s))"
    using idle assms by (simp add: before_publish_hysteresis tick_head_fields(7) set_state_and_update_False)
  show "current_task (flight_tasks (snd (tick ext inp s))) = None_task"
    using tick_head_fields(8) [OF assms(2)]
    by (simp add: tick_state publish_attitude_fields before_publish_fields)
  show "\<not> get_state (arm_hysteresis (snd (tick ext inp s)))"
    using h publish_attitude_fields(5) [where s = "before_publish ext inp s" and t = "now inp"]
    by (simp add: tick_state same_arming_def)
  show "\<not> attitude_published (fst (tick ext inp s))"
    using h by (simp add: tick_events publish_attitude_events)
qed



lemma task_setpoint_failsafe:
  "\<not> task_update inp \<Longrightarrow>
   fst (snd (task_setpoint inp s)) =
     (if isfinite (vec_2 (velocity (states s)))
      then (setpoint_uninitialised inp)
             \<lparr>sp_x := NaN, sp_y := NaN, sp_z := NaN, sp_vx := NaN, sp_vy := NaN,
              sp_vz := land_speed (params s),
              sp_thrust := \<lparr>vec_0 = Fin 0, vec_1 = Fin 0, vec_2 = NaN\<rparr>\<rparr>
      else (setpoint_uninitialised inp)
             \<lparr>sp_x := NaN, sp_y := NaN, sp_z := NaN, sp_vx := NaN, sp_vy := NaN, sp_vz := NaN,
              sp_thrust := \<lparr>vec_0 = NaN, vec_1 = NaN, vec_2 = NaN\<rparr>\<rparr>)"
  by (simp add: task_setpoint_def Let_def case_prod_beta)

lemma gather_inputs_more:
  "vehicle_land_detected (state_of (gather_inputs ext inp s)) = vehicle_land_detected s"
  "fst (snd (gather_inputs ext inp s)) = fst (snd (task_setpoint inp s))"
proof -
  let ?s1 = "snd (snd (task_setpoint inp s))"
  have "tasks_only s ?s1" by (rule task_setpoint_fields)
  then have "vehicle_land_detected ?s1 = vehicle_land_detected s"
    by (rule tasks_only_fields)
  then show "vehicle_land_detected (state_of (gather_inputs ext inp s)) = vehicle_land_detected s"
    by (simp add: gather_inputs_def check_vehicle_states_def Let_def case_prod_beta)
  show "fst (snd (gather_inputs ext inp s)) = fst (snd (task_setpoint inp s))"
    by (simp add: gather_inputs_def Let_def case_prod_beta)
qed

lemma control_inputs_plain:
  assumes "\<not> landed (vehicle_land_detected s)" "\<not> in_smooth_takeoff s"
    "flt (alt_max (vehicle_land_detected s)) (Fin 0)"
  shows "fst (snd (control_inputs ext inp s)) = fst (snd (task_setpoint inp s))"
proof -
  let ?g = "state_of (gather_inputs ext inp s)"
  have l: "\<not> landed (vehicle_land_detected ?g)" "flt (alt_max (vehicle_land_detected ?g)) (Fin 0)"
    using assms by (simp_all add: gather_inputs_more)
  have i: "\<not> in_smooth_takeoff ?g"
    using assms(2) gather_inputs_fields(2) [where ext = ext and inp = inp and s = s]
    by (simp add: same_takeoff_def)
  have t: "smooth_takeoff sp c ?g =
      (sp, c, if get_state (arm_hysteresis ?g) \<and> isfinite (vec_2 (position (states ?g)))
                 \<and> isfinite (vec_2 (velocity (states ?g)))
              then ?g\<lparr>in_smooth_takeoff := False\<rparr> else ?g)" for sp c
    using l i by (simp add: smooth_takeoff_def check_for_smooth_takeoff_def update_smooth_takeoff_def)
  show ?thesis
    using l i
    by (simp add: control_inputs_def Let_def case_prod_beta t landed_idle_def limit_altitude_def
          gather_inputs_more(2))
qed

lemma run_control_calls:
  "control (snd (run_control ext (fst (snd C)) (fst (snd (snd C))) (state_of C))) = pid_executed ext C
   \<or> control (snd (run_control ext (fst (snd C)) (fst (snd (snd C))) (state_of C)))
       = resetIntegralXY ext (pid_executed ext C)
   \<or> control (snd (run_control ext (fst (snd C)) (fst (snd (snd C))) (state_of C)))
       = resetIntegralZ ext (resetIntegralXY ext (pid_executed ext C))
   \<or> control (snd (run_control ext (fst (snd C)) (fst (snd (snd C))) (state_of C)))
       = resetIntegralZ ext (resetIntegralXY ext (resetIntegralXY ext (pid_executed ext C)))"
  by (simp add: run_control_def limit_thrust_during_landing_def pid_executed_def Let_def)

lemma tick_control:
  "isAnyTaskActive (flight_tasks (after_head inp s)) \<Longrightarrow>
   control (snd (tick ext inp s))
     = control (snd (run_control ext
         (fst (snd (control_inputs ext inp (after_head inp s))))
         (fst (snd (snd (control_inputs ext inp (after_head inp s)))))
         (state_of (control_inputs ext inp (after_head inp s)))))"
  by (simp add: tick_state publish_attitude_fields before_publish_def active_task_def Let_def
        case_prod_beta publish_local_pos_sp_fields fill_setpoints_fields)


subsection \<open>Ticks\<close>

text \<open>The definitions that a tick unfolds to, and those of the scenarios.\<close>

lemmas controller_defs =
  tick_def tick_head_def arming_def start_flight_task_def start_offboard_def start_auto_def
  start_position_def start_altitude_def start_stabilized_def try_task_def switch_to_def
  switchTask_def isAnyTaskActive_def active_task_def control_inputs_def gather_inputs_def
  task_setpoint_def check_vehicle_states_def smooth_takeoff_def check_for_smooth_takeoff_def
  update_smooth_takeoff_def landed_idle_def limit_altitude_def run_control_def
  limit_thrust_during_landing_def fill_setpoints_def publish_local_pos_sp_def stay_idle_def
  publish_attitude_def poll_subscriptions_def parameters_update_def warn_rate_limited_def
  set_state_and_update_def hysteresis_update_def get_state_def task_main_def loop_pass_def

lemmas scenario_defs =
  fresh_def MulticopterPositionControl_def scenario_parameters_def recording_def
  level_attitude_def free_setpoint_def zero_setpoint_def free_constraints_def vec_zero_def
  set_hysteresis_time_from_def Hysteresis_init_def IDLE_BOFORE_TAKEOFF_TIME_US_def
  math_min_def math_max_def fgt_def fsub_def fminf_def FLT_EPSILON_def
  quiet_input_def armed_mode_def disarmed_mode_def multicopter_status_def arming_input_def
  armed_run_def landed_now_def

text \<open>
  Claim C2. In every run of the controller, a tick that reads \<open>flag_armed = false\<close> from the
  control mode switches the flight task to \<open>None\<close> and resets the arm hysteresis to false:
  after that tick no flight task is active, and the tick publishes no attitude setpoint.
\<close>

theorem disarmed_tick:
  "\<not> flag_armed (control_mode (poll_subscriptions inp
        (snd (task_main ext inp0 passes (MulticopterPositionControl c d p y)))))
   \<longrightarrow> current_task (flight_tasks (snd (tick ext inp
          (snd (task_main ext inp0 passes (MulticopterPositionControl c d p y)))))) = None_task
     \<and> \<not> get_state (arm_hysteresis (snd (tick ext inp
          (snd (task_main ext inp0 passes (MulticopterPositionControl c d p y))))))
     \<and> \<not> isAnyTaskActive (flight_tasks (snd (tick ext inp
          (snd (task_main ext inp0 passes (MulticopterPositionControl c d p y))))))
     \<and> \<not> attitude_published (fst (tick ext inp
          (snd (task_main ext inp0 passes (MulticopterPositionControl c d p y)))))"
  using tick_when_disarmed [OF task_main_hysteresis_time, where inp = inp and ext = ext]
  by (simp add: isAnyTaskActive_def)

text \<open>The armed run: a task is active after its tick, and no attitude topic is chosen yet.\<close>

lemma armed_run_facts:
  "isAnyTaskActive (flight_tasks armed_run)" "flag_armed (control_mode armed_run)"
  "attitude_setpoint_id armed_run = None" "\<not> att_sp_pub armed_run"
  "\<not> in_smooth_takeoff armed_run"
  by (simp_all add: controller_defs scenario_defs Let_def)

text \<open>Disarming at two seconds, after the armed run that left the stabilized task active.\<close>

theorem disarmed_tick_witness:
  "isAnyTaskActive (flight_tasks armed_run)
   \<and> \<not> flag_armed (control_mode (poll_subscriptions
           ((quiet_input 2000000)\<lparr>new_control_mode := Some disarmed_mode\<rparr>) armed_run))
   \<and> current_task (flight_tasks (snd (tick (recording vec_zero)
         ((quiet_input 2000000)\<lparr>new_control_mode := Some disarmed_mode\<rparr>) armed_run))) = None_task
   \<and> \<not> get_state (arm_hysteresis (snd (tick (recording vec_zero)
         ((quiet_input 2000000)\<lparr>new_control_mode := Some disarmed_mode\<rparr>) armed_run)))
   \<and> \<not> isAnyTaskActive (flight_tasks (snd (tick (recording vec_zero)
         ((quiet_input 2000000)\<lparr>new_control_mode := Some disarmed_mode\<rparr>) armed_run)))
   \<and> \<not> attitude_published (fst (tick (recording vec_zero)
         ((quiet_input 2000000)\<lparr>new_control_mode := Some disarmed_mode\<rparr>) armed_run))"
proof -
  have h: "\<not> flag_armed (control_mode (poll_subscriptions
           ((quiet_input 2000000)\<lparr>new_control_mode := Some disarmed_mode\<rparr>) armed_run))"
    by (simp add: poll_subscriptions_def quiet_input_def disarmed_mode_def armed_mode_def Let_def)
  show ?thesis
    using h armed_run_facts(1)
      disarmed_tick [where inp = "(quiet_input 2000000)\<lparr>new_control_mode := Some disarmed_mode\<rparr>"
        and ext = "recording vec_zero" and ?inp0.0 = "quiet_input 0" and passes = "[(1, arming_input)]"
        and c = "[]" and d = "()" and p = scenario_parameters and y = "Fin 0"]
    by (simp only: armed_run_def fresh_def simp_thms)
qed

text \<open>
  Claim C8, amended. A tick publishes an attitude setpoint if and only if the arm
  hysteresis is true, it is not the case that offboard control is enabled while position,
  velocity and acceleration control are all disabled, and the controller has something to
  publish on: a publication handle from an earlier tick, or the attitude topic that it
  chooses when the first vehicle status arrives.
\<close>

theorem attitude_publication:
  "attitude_published (fst (tick ext inp s)) \<longleftrightarrow>
     get_state (arm_hysteresis (snd (tick ext inp s)))
     \<and> \<not> (flag_control_offboard_enabled (control_mode (snd (tick ext inp s)))
           \<and> \<not> (flag_control_position_enabled (control_mode (snd (tick ext inp s)))
                 \<or> flag_control_velocity_enabled (control_mode (snd (tick ext inp s)))
                 \<or> flag_control_acceleration_enabled (control_mode (snd (tick ext inp s)))))
     \<and> (att_sp_pub s \<or> attitude_setpoint_id (snd (tick ext inp s)) \<noteq> None)"
  using publish_attitude_fields(5) [where s = "before_publish ext inp s" and t = "now inp"]
  by (simp add: tick_events tick_state publish_attitude_events publish_attitude_fields
        before_publish_fields same_arming_def)

text \<open>
  Three seconds after arming, with the vehicle status of a multicopter arriving in this
  tick: the attitude setpoint is advertised.
\<close>

theorem attitude_publication_witness:
  "get_state (arm_hysteresis (snd (tick (recording vec_zero)
      ((quiet_input 4000000)\<lparr>new_vehicle_status := Some multicopter_status\<rparr>) armed_run)))
   \<and> attitude_setpoint_id (snd (tick (recording vec_zero)
      ((quiet_input 4000000)\<lparr>new_vehicle_status := Some multicopter_status\<rparr>) armed_run))
       = Some vehicle_attitude_setpoint
   \<and> attitude_published (fst (tick (recording vec_zero)
      ((quiet_input 4000000)\<lparr>new_vehicle_status := Some multicopter_status\<rparr>) armed_run))"
proof -
  let ?s = "snd (tick (recording vec_zero)
      ((quiet_input 4000000)\<lparr>new_vehicle_status := Some multicopter_status\<rparr>) armed_run)"
  have r: "get_state (arm_hysteresis ?s)"
    "attitude_setpoint_id ?s = Some vehicle_attitude_setpoint"
    "\<not> flag_control_offboard_enabled (control_mode ?s)"
    by (simp_all add: controller_defs scenario_defs Let_def)
  show ?thesis
    using r attitude_publication [of "recording vec_zero"
        "(quiet_input 4000000)\<lparr>new_vehicle_status := Some multicopter_status\<rparr>" armed_run]
    by simp
qed

text \<open>
  Three seconds after arming and with no vehicle status received so far: the arm hysteresis
  is true, offboard control is off, and nothing is published.
\<close>

theorem attitude_publication_counterexample:
  "get_state (arm_hysteresis (snd (tick (recording vec_zero) (quiet_input 4000000) armed_run)))
   \<and> \<not> flag_control_offboard_enabled
         (control_mode (snd (tick (recording vec_zero) (quiet_input 4000000) armed_run)))
   \<and> \<not> attitude_published (fst (tick (recording vec_zero) (quiet_input 4000000) armed_run))"
  by (simp add: controller_defs scenario_defs Let_def)



text \<open>
  Claim C7, amended. In a tick whose \<^verbatim>\<open>update\<close> of the flight task fails, the setpoint that
  the tick synthesises has \<open>x, y, z, vx, vy\<close> and \<open>thrust.z\<close> NaN, and \<open>vz = land_speed\<close>,
  \<open>thrust.x = thrust.y = 0\<close> when the vertical velocity state is finite, \<open>vz\<close>, \<open>thrust.x\<close> and
  \<open>thrust.y\<close> NaN when it is not. When a task is active the PID core is executed in that
  tick (followed at most by the integral resets of the landing shaper), on the setpoint
  that the takeoff block, the landed idle step and the altitude fence make of the
  synthesised one; that is the synthesised one itself when the vehicle is not landed, not
  in smooth takeoff, and the altitude fence is off.
\<close>

theorem failsafe_setpoint:
  "\<not> task_update inp \<longrightarrow>
     (isfinite (vec_2 (velocity (states (after_head inp s)))) \<longrightarrow>
        sp_x (fst (snd (task_setpoint inp (after_head inp s)))) = NaN
        \<and> sp_y (fst (snd (task_setpoint inp (after_head inp s)))) = NaN
        \<and> sp_z (fst (snd (task_setpoint inp (after_head inp s)))) = NaN
        \<and> sp_vx (fst (snd (task_setpoint inp (after_head inp s)))) = NaN
        \<and> sp_vy (fst (snd (task_setpoint inp (after_head inp s)))) = NaN
        \<and> sp_vz (fst (snd (task_setpoint inp (after_head inp s)))) = land_speed (params (after_head inp s))
        \<and> sp_thrust (fst (snd (task_setpoint inp (after_head inp s))))
            = \<lparr>vec_0 = Fin 0, vec_1 = Fin 0, vec_2 = NaN\<rparr>)
     \<and> (\<not> isfinite (vec_2 (velocity (states (after_head inp s)))) \<longrightarrow>
        sp_x (fst (snd (task_setpoint inp (after_head inp s)))) = NaN
        \<and> sp_y (fst (snd (task_setpoint inp (after_head inp s)))) = NaN
        \<and> sp_z (fst (snd (task_setpoint inp (after_head inp s)))) = NaN
        \<and> sp_vx (fst (snd (task_setpoint inp (after_head inp s)))) = NaN
        \<and> sp_vy (fst (snd (task_setpoint inp (after_head inp s)))) = NaN
        \<and> sp_vz (fst (snd (task_setpoint inp (after_head inp s)))) = NaN
        \<and> sp_thrust (fst (snd (task_setpoint inp (after_head inp s))))
            = \<lparr>vec_0 = NaN, vec_1 = NaN, vec_2 = NaN\<rparr>)
     \<and> (isAnyTaskActive (flight_tasks (after_head inp s)) \<longrightarrow>
          control (snd (tick ext inp s))
            = pid_executed ext (control_inputs ext inp (after_head inp s))
          \<or> control (snd (tick ext inp s))
            = resetIntegralXY ext (pid_executed ext (control_inputs ext inp (after_head inp s)))
          \<or> control (snd (tick ext inp s))
            = resetIntegralZ ext (resetIntegralXY ext
                (pid_executed ext (control_inputs ext inp (after_head inp s))))
          \<or> control (snd (tick ext inp s))
            = resetIntegralZ ext (resetIntegralXY ext (resetIntegralXY ext
                (pid_executed ext (control_inputs ext inp (after_head inp s))))))
     \<and> (\<not> landed (vehicle_land_detected (after_head inp s)) \<and> \<not> in_smooth_takeoff (after_head inp s)
          \<and> flt (alt_max (vehicle_land_detected (after_head inp s))) (Fin 0) \<longrightarrow>
          fst (snd (control_inputs ext inp (after_head inp s)))
            = fst (snd (task_setpoint inp (after_head inp s))))"
proof (intro impI conjI)
  assume f: "\<not> task_update inp"
  note sp = task_setpoint_failsafe [OF f, of "after_head inp s"]
  {
    assume v: "isfinite (vec_2 (velocity (states (after_head inp s))))"
    show "sp_x (fst (snd (task_setpoint inp (after_head inp s)))) = NaN"
      "sp_y (fst (snd (task_setpoint inp (after_head inp s)))) = NaN"
      "sp_z (fst (snd (task_setpoint inp (after_head inp s)))) = NaN"
      "sp_vx (fst (snd (task_setpoint inp (after_head inp s)))) = NaN"
      "sp_vy (fst (snd (task_setpoint inp (after_head inp s)))) = NaN"
      "sp_vz (fst (snd (task_setpoint inp (after_head inp s)))) = land_speed (params (after_head inp s))"
      "sp_thrust (fst (snd (task_setpoint inp (after_head inp s))))
            = \<lparr>vec_0 = Fin 0, vec_1 = Fin 0, vec_2 = NaN\<rparr>"
      using v by (simp_all add: sp)
  }
  {
    assume v: "\<not> isfinite (vec_2 (velocity (states (after_head inp s))))"
    show "sp_x (fst (snd (task_setpoint inp (after_head inp s)))) = NaN"
      "sp_y (fst (snd (task_setpoint inp (after_head inp s)))) = NaN"
      "sp_z (fst (snd (task_setpoint inp (after_head inp s)))) = NaN"
      "sp_vx (fst (snd (task_setpoint inp (after_head inp s)))) = NaN"
      "sp_vy (fst (snd (task_setpoint inp (after_head inp s)))) = NaN"
      "sp_vz (fst (snd (task_setpoint inp (after_head inp s)))) = NaN"
      "sp_thrust (fst (snd (task_setpoint inp (after_head inp s))))
            = \<lparr>vec_0 = NaN, vec_1 = NaN, vec_2 = NaN\<rparr>"
      using v by (simp_all add: sp)
  }
  {
    assume a: "isAnyTaskActive (flight_tasks (after_head inp s))"
    show "control (snd (tick ext inp s))
            = pid_executed ext (control_inputs ext inp (after_head inp s))
          \<or> control (snd (tick ext inp s))
            = resetIntegralXY ext (pid_executed ext (control_inputs ext inp (after_head inp s)))
          \<or> control (snd (tick ext inp s))
            = resetIntegralZ ext (resetIntegralXY ext
                (pid_executed ext (control_inputs ext inp (after_head inp s))))
          \<or> control (snd (tick ext inp s))
            = resetIntegralZ ext (resetIntegralXY ext (resetIntegralXY ext
                (pid_executed ext (control_inputs ext inp (after_head inp s)))))"
      using run_control_calls [of ext "control_inputs ext inp (after_head inp s)"]
      by (simp only: tick_control [OF a])
  }
  {
    assume "\<not> landed (vehicle_land_detected (after_head inp s)) \<and> \<not> in_smooth_takeoff (after_head inp s)
          \<and> flt (alt_max (vehicle_land_detected (after_head inp s))) (Fin 0)"
    then show "fst (snd (control_inputs ext inp (after_head inp s)))
            = fst (snd (task_setpoint inp (after_head inp s)))"
      by (simp add: control_inputs_plain)
  }
qed

text \<open>
  Scenario S6 on the ground. The local variable held zeros: the synthesised setpoint has
  \<open>yaw = 0\<close> and \<open>yawspeed = 0\<close>, not NaN, and \<open>vz = land_speed = 0.7\<close>. The PID core is not
  given this setpoint: the landed idle step replaces it by zero thrust with \<open>vz\<close> NaN.
\<close>

theorem failsafe_setpoint_counterexample:
  "isAnyTaskActive (flight_tasks (after_head S6_input S6_ground)) \<and> \<not> task_update S6_input
   \<and> isfinite (vec_2 (velocity (states (after_head S6_input S6_ground))))
   \<and> sp_yaw (fst (snd (task_setpoint S6_input (after_head S6_input S6_ground)))) = Fin 0
   \<and> sp_yawspeed (fst (snd (task_setpoint S6_input (after_head S6_input S6_ground)))) = Fin 0
   \<and> sp_vz (fst (snd (task_setpoint S6_input (after_head S6_input S6_ground)))) = Fin (7 / 10)
   \<and> control (snd (tick (recording vec_zero) S6_input S6_ground))
       = [UpdateConstraints free_constraints, UpdateState (states fresh),
          UpdateSetpoint (free_setpoint\<lparr>sp_yaw := Fin 0, sp_thrust := vec_zero\<rparr>),
          GenerateThrustYawSetpoint (Fin (4 / 1000))]"
  by (simp add: S6_input_def S6_ground_def controller_defs scenario_defs Let_def)

text \<open>Scenario S6 in the air, with the altitude fence off.\<close>

theorem failsafe_setpoint_witness:
  "\<not> task_update S6_input
   \<and> isfinite (vec_2 (velocity (states (after_head S6_input S6_air))))
   \<and> isAnyTaskActive (flight_tasks (after_head S6_input S6_air))
   \<and> \<not> landed (vehicle_land_detected (after_head S6_input S6_air))
   \<and> \<not> in_smooth_takeoff (after_head S6_input S6_air)
   \<and> flt (alt_max (vehicle_land_detected (after_head S6_input S6_air))) (Fin 0)
   \<and> sp_x (fst (snd (task_setpoint S6_input (after_head S6_input S6_air)))) = NaN
   \<and> sp_vz (fst (snd (task_setpoint S6_input (after_head S6_input S6_air)))) = Fin (7 / 10)
   \<and> sp_thrust (fst (snd (task_setpoint S6_input (after_head S6_input S6_air))))
       = \<lparr>vec_0 = Fin 0, vec_1 = Fin 0, vec_2 = NaN\<rparr>
   \<and> fst (snd (control_inputs (recording vec_zero) S6_input (after_head S6_input S6_air)))
       = fst (snd (task_setpoint S6_input (after_head S6_input S6_air)))
   \<and> (control (snd (tick (recording vec_zero) S6_input S6_air))
         = pid_executed (recording vec_zero)
             (control_inputs (recording vec_zero) S6_input (after_head S6_input S6_air))
       \<or> control (snd (tick (recording vec_zero) S6_input S6_air))
         = resetIntegralXY (recording vec_zero) (pid_executed (recording vec_zero)
             (control_inputs (recording vec_zero) S6_input (after_head S6_input S6_air)))
       \<or> control (snd (tick (recording vec_zero) S6_input S6_air))
         = resetIntegralZ (recording vec_zero) (resetIntegralXY (recording vec_zero)
             (pid_executed (recording vec_zero)
               (control_inputs (recording vec_zero) S6_input (after_head S6_input S6_air))))
       \<or> control (snd (tick (recording vec_zero) S6_input S6_air))
         = resetIntegralZ (recording vec_zero) (resetIntegralXY (recording vec_zero)
             (resetIntegralXY (recording vec_zero) (pid_executed (recording vec_zero)
               (control_inputs (recording vec_zero) S6_input (after_head S6_input S6_air))))))"
proof -
  have r: "\<not> task_update S6_input"
    "isfinite (vec_2 (velocity (states (after_head S6_input S6_air))))"
    "isAnyTaskActive (flight_tasks (after_head S6_input S6_air))"
    "\<not> landed (vehicle_land_detected (after_head S6_input S6_air))"
    "\<not> in_smooth_takeoff (after_head S6_input S6_air)"
    "flt (alt_max (vehicle_land_detected (after_head S6_input S6_air))) (Fin 0)"
    "land_speed (params (after_head S6_input S6_air)) = Fin (7 / 10)"
    by (simp_all add: S6_input_def S6_air_def S6_ground_def controller_defs scenario_defs Let_def)
  show ?thesis
    using r failsafe_setpoint [of S6_input S6_air "recording vec_zero"]
    by simp
qed


subsection \<open>Entering smooth takeoff\<close>

lemma smooth_takeoff_state:
  "snd (snd (smooth_takeoff sp c s)) =
     (if get_state (arm_hysteresis s) \<and> isfinite (vec_2 (position (states s)))
         \<and> isfinite (vec_2 (velocity (states s)))
      then update_smooth_takeoff (sp_z sp) (sp_vz sp) (check_for_smooth_takeoff (sp_z sp) (sp_vz sp) c s)
      else s)"
  by (simp add: smooth_takeoff_def Let_def)

lemma gather_inputs_constraints: "fst (snd (snd (gather_inputs ext inp s))) = getConstraints inp"
  by (simp add: gather_inputs_def Let_def case_prod_beta)

lemma after_takeoff_state:
  "after_takeoff ext inp s =
     (if get_state (arm_hysteresis (at_arming_check ext inp s))
         \<and> isfinite (vec_2 (position (states (at_arming_check ext inp s))))
         \<and> isfinite (vec_2 (velocity (states (at_arming_check ext inp s))))
      then update_smooth_takeoff (sp_z (fst (snd (task_setpoint inp s))))
             (sp_vz (fst (snd (task_setpoint inp s))))
             (check_for_smooth_takeoff (sp_z (fst (snd (task_setpoint inp s))))
                (sp_vz (fst (snd (task_setpoint inp s)))) (getConstraints inp)
                (at_arming_check ext inp s))
      else at_arming_check ext inp s)"
  by (simp add: after_takeoff_def smooth_takeoff_state gather_inputs_constraints gather_inputs_more(2))

lemma tick_takeoff_active:
  "isAnyTaskActive (flight_tasks (after_head inp s)) \<Longrightarrow>
   same_takeoff (after_takeoff ext inp (after_head inp s)) (snd (tick ext inp s))"
  using active_task_fields(2) [where ext = ext and inp = inp and s = "after_head inp s"]
    publish_attitude_fields(4) [where s = "before_publish ext inp s" and t = "now inp"]
  by (simp add: tick_state before_publish_def same_takeoff_def)

lemma tick_takeoff_idle:
  "\<not> isAnyTaskActive (flight_tasks (after_head inp s)) \<Longrightarrow> same_takeoff s (snd (tick ext inp s))"
  using stay_idle_fields(2) [where ext = ext and s = "after_head inp s"]
    publish_attitude_fields(4) [where s = "before_publish ext inp s" and t = "now inp"]
    tick_head_fields(6) [where inp = inp and s = s]
  by (simp add: tick_state before_publish_def same_takeoff_def)

lemma check_state_fields:
  "landed (vehicle_land_detected (at_arming_check ext inp s)) = landed (vehicle_land_detected s)"
  "in_smooth_takeoff (at_arming_check ext inp s) = in_smooth_takeoff s"
  "takeoff_speed (at_arming_check ext inp s) = takeoff_speed s"
  using gather_inputs_fields(2) [where ext = ext and inp = inp and s = s]
  by (simp_all add: at_arming_check_def gather_inputs_more(1) same_takeoff_def)

text \<open>
  Claim C5, amended. In every tick in which the vehicle is landed and not already in smooth
  takeoff, smooth takeoff is entered if and only if a flight task is active, the arming
  check passes (arm hysteresis true, vertical position and vertical velocity state
  finite), and \<open>z_sp\<close> is finite with \<open>z_sp < position.z - min_altitude\<close> or \<open>vz_sp\<close> is finite
  with \<open>vz_sp < min (- takeoff speed parameter, -0.6)\<close>, where \<open>min_altitude\<close> is
  \<open>min_distance_to_ground + 0.05\<close> when that is finite and \<open>0.2\<close> otherwise. On entry
  \<^verbatim>\<open>check_for_smooth_takeoff\<close> sets the takeoff flag and the ramp value \<open>-0.5\<close>, and the ramp
  update of the same tick runs from there: the flag and the ramp value after the tick are
  those of that update. Otherwise the vehicle is not in smooth takeoff after the tick and
  the ramp value is the one before it.
\<close>

theorem takeoff_entry:
  "landed (vehicle_land_detected (after_head inp s)) \<and> \<not> in_smooth_takeoff s \<longrightarrow>
     (isAnyTaskActive (flight_tasks (after_head inp s))
        \<and> get_state (arm_hysteresis (check_state ext inp s))
        \<and> isfinite (vec_2 (position (states (check_state ext inp s))))
        \<and> isfinite (vec_2 (velocity (states (check_state ext inp s))))
        \<and> ((isfinite (sp_z (tick_setpoint inp s))
              \<and> flt (sp_z (tick_setpoint inp s))
                     (fsub (vec_2 (position (states (check_state ext inp s))))
                        (if isfinite (min_distance_to_ground (getConstraints inp))
                         then fadd (min_distance_to_ground (getConstraints inp)) (Fin (5 / 100))
                         else Fin (2 / 10))))
            \<or> (isfinite (sp_vz (tick_setpoint inp s))
                \<and> flt (sp_vz (tick_setpoint inp s))
                       (math_min (fneg (tko_speed (params (check_state ext inp s))))
                          (Fin (- (6 / 10))))))
      \<longrightarrow> in_smooth_takeoff (check_for_smooth_takeoff (sp_z (tick_setpoint inp s))
              (sp_vz (tick_setpoint inp s)) (getConstraints inp) (check_state ext inp s))
          \<and> takeoff_speed (check_for_smooth_takeoff (sp_z (tick_setpoint inp s))
              (sp_vz (tick_setpoint inp s)) (getConstraints inp) (check_state ext inp s))
              = Fin (- (5 / 10))
          \<and> in_smooth_takeoff (snd (tick ext inp s))
              = in_smooth_takeoff (update_smooth_takeoff (sp_z (tick_setpoint inp s))
                  (sp_vz (tick_setpoint inp s))
                  (check_for_smooth_takeoff (sp_z (tick_setpoint inp s))
                     (sp_vz (tick_setpoint inp s)) (getConstraints inp) (check_state ext inp s)))
          \<and> takeoff_speed (snd (tick ext inp s))
              = takeoff_speed (update_smooth_takeoff (sp_z (tick_setpoint inp s))
                  (sp_vz (tick_setpoint inp s))
                  (check_for_smooth_takeoff (sp_z (tick_setpoint inp s))
                     (sp_vz (tick_setpoint inp s)) (getConstraints inp) (check_state ext inp s))))
     \<and> (\<not> (isAnyTaskActive (flight_tasks (after_head inp s))
            \<and> get_state (arm_hysteresis (check_state ext inp s))
            \<and> isfinite (vec_2 (position (states (check_state ext inp s))))
            \<and> isfinite (vec_2 (velocity (states (check_state ext inp s))))
            \<and> ((isfinite (sp_z (tick_setpoint inp s))
                  \<and> flt (sp_z (tick_setpoint inp s))
                         (fsub (vec_2 (position (states (check_state ext inp s))))
                            (if isfinite (min_distance_to_ground (getConstraints inp))
                             then fadd (min_distance_to_ground (getConstraints inp)) (Fin (5 / 100))
                             else Fin (2 / 10))))
                \<or> (isfinite (sp_vz (tick_setpoint inp s))
                    \<and> flt (sp_vz (tick_setpoint inp s))
                           (math_min (fneg (tko_speed (params (check_state ext inp s))))
                              (Fin (- (6 / 10)))))))
      \<longrightarrow> \<not> in_smooth_takeoff (snd (tick ext inp s))
          \<and> takeoff_speed (snd (tick ext inp s)) = takeoff_speed s)"
proof (intro impI)
  assume h: "landed (vehicle_land_detected (after_head inp s)) \<and> \<not> in_smooth_takeoff s"
  let ?H = "after_head inp s"
  let ?g = "check_state ext inp s"
  let ?z = "sp_z (tick_setpoint inp s)"
  let ?vz = "sp_vz (tick_setpoint inp s)"
  let ?c = "getConstraints inp"
  let ?arming = "get_state (arm_hysteresis ?g) \<and> isfinite (vec_2 (position (states ?g)))
        \<and> isfinite (vec_2 (velocity (states ?g)))"
  let ?cond = "(isfinite ?z
              \<and> flt ?z (fsub (vec_2 (position (states ?g)))
                        (if isfinite (min_distance_to_ground ?c)
                         then fadd (min_distance_to_ground ?c) (Fin (5 / 100))
                         else Fin (2 / 10))))
            \<or> (isfinite ?vz \<and> flt ?vz (math_min (fneg (tko_speed (params ?g))) (Fin (- (6 / 10)))))"
  have hs: "same_takeoff s ?H" by (rule tick_head_fields)
  have g: "landed (vehicle_land_detected ?g)" "\<not> in_smooth_takeoff ?g" "takeoff_speed ?g = takeoff_speed s"
    using h hs by (simp_all add: check_state_fields same_takeoff_def)
  have e: "check_for_smooth_takeoff ?z ?vz ?c ?g =
      (if ?cond then ?g\<lparr>in_smooth_takeoff := True, takeoff_speed := Fin (- (5 / 10))\<rparr>
       else ?g\<lparr>in_smooth_takeoff := False\<rparr>)"
    using g by (simp add: check_for_smooth_takeoff_def Let_def)
  have u: "\<not> in_smooth_takeoff (update_smooth_takeoff ?z ?vz (?g\<lparr>in_smooth_takeoff := False\<rparr>))"
    "takeoff_speed (update_smooth_takeoff ?z ?vz (?g\<lparr>in_smooth_takeoff := False\<rparr>)) = takeoff_speed ?g"
    by (simp_all add: update_smooth_takeoff_def)
  have entered: "in_smooth_takeoff (check_for_smooth_takeoff ?z ?vz ?c ?g)
      \<and> takeoff_speed (check_for_smooth_takeoff ?z ?vz ?c ?g) = Fin (- (5 / 10))" if "?cond"
    by (subst e, subst if_P [OF that], simp)+
  have run: "in_smooth_takeoff (snd (tick ext inp s))
        = in_smooth_takeoff (update_smooth_takeoff ?z ?vz (check_for_smooth_takeoff ?z ?vz ?c ?g))
      \<and> takeoff_speed (snd (tick ext inp s))
        = takeoff_speed (update_smooth_takeoff ?z ?vz (check_for_smooth_takeoff ?z ?vz ?c ?g))"
    if "isAnyTaskActive (flight_tasks ?H)" "?arming"
  proof -
    have "after_takeoff ext inp ?H
        = update_smooth_takeoff ?z ?vz (check_for_smooth_takeoff ?z ?vz ?c ?g)"
      by (subst after_takeoff_state) (rule if_P [OF that(2)])
    then show ?thesis
      using tick_takeoff_active [OF that(1), of ext] by (simp add: same_takeoff_def)
  qed
  have idle: "\<not> in_smooth_takeoff (snd (tick ext inp s))
      \<and> takeoff_speed (snd (tick ext inp s)) = takeoff_speed s"
    if "\<not> isAnyTaskActive (flight_tasks ?H)"
    using tick_takeoff_idle [OF that, of ext] h by (simp add: same_takeoff_def)
  have unarmed: "\<not> in_smooth_takeoff (snd (tick ext inp s))
      \<and> takeoff_speed (snd (tick ext inp s)) = takeoff_speed s"
    if "isAnyTaskActive (flight_tasks ?H)" "\<not> ?arming"
  proof -
    have "after_takeoff ext inp ?H = ?g"
      by (subst after_takeoff_state) (rule if_not_P [OF that(2)])
    then show ?thesis
      using tick_takeoff_active [OF that(1), of ext] g by (simp add: same_takeoff_def)
  qed
  have refused: "\<not> in_smooth_takeoff (snd (tick ext inp s))
      \<and> takeoff_speed (snd (tick ext inp s)) = takeoff_speed s"
    if "isAnyTaskActive (flight_tasks ?H)" "?arming" "\<not> ?cond"
  proof -
    have "check_for_smooth_takeoff ?z ?vz ?c ?g = ?g\<lparr>in_smooth_takeoff := False\<rparr>"
      by (subst e) (rule if_not_P [OF that(3)])
    then show ?thesis using run [OF that(1,2)] u g by simp
  qed
  let ?a1 = "get_state (arm_hysteresis ?g)"
  let ?a2 = "isfinite (vec_2 (position (states ?g)))"
  let ?a3 = "isfinite (vec_2 (velocity (states ?g)))"
  show "(isAnyTaskActive (flight_tasks ?H) \<and> ?a1 \<and> ?a2 \<and> ?a3 \<and> ?cond
      \<longrightarrow> in_smooth_takeoff (check_for_smooth_takeoff ?z ?vz ?c ?g)
          \<and> takeoff_speed (check_for_smooth_takeoff ?z ?vz ?c ?g) = Fin (- (5 / 10))
          \<and> in_smooth_takeoff (snd (tick ext inp s))
              = in_smooth_takeoff (update_smooth_takeoff ?z ?vz (check_for_smooth_takeoff ?z ?vz ?c ?g))
          \<and> takeoff_speed (snd (tick ext inp s))
              = takeoff_speed (update_smooth_takeoff ?z ?vz (check_for_smooth_takeoff ?z ?vz ?c ?g)))
     \<and> (\<not> (isAnyTaskActive (flight_tasks ?H) \<and> ?a1 \<and> ?a2 \<and> ?a3 \<and> ?cond)
      \<longrightarrow> \<not> in_smooth_takeoff (snd (tick ext inp s))
          \<and> takeoff_speed (snd (tick ext inp s)) = takeoff_speed s)"
    using entered run idle unarmed refused by blast
qed

lemmas entry_defs =
  ground_sample_def climb_input_def S1_waiting_def at_arming_check_def

text \<open>
  Half a second after arming, landed at \<open>position.z = 0\<close> with an active task that asks for
  \<open>z = -2\<close>: the condition on the setpoint holds (\<open>-2 < 0 - 0.2\<close>), the arm hysteresis is
  still false, and the tick does not enter smooth takeoff; the ramp value stays \<open>-1\<close>.
\<close>

theorem takeoff_entry_counterexample:
  "landed (vehicle_land_detected (after_head (climb_input 1500000) armed_run))
   \<and> \<not> in_smooth_takeoff armed_run
   \<and> isAnyTaskActive (flight_tasks (after_head (climb_input 1500000) armed_run))
   \<and> sp_z (tick_setpoint (climb_input 1500000) armed_run) = Fin (- 2)
   \<and> vec_2 (position (states (check_state (recording vec_zero) (climb_input 1500000) armed_run))) = Fin 0
   \<and> min_distance_to_ground (getConstraints (climb_input 1500000)) = NaN
   \<and> flt (Fin (- 2)) (fsub (Fin 0) (Fin (2 / 10)))
   \<and> \<not> get_state (arm_hysteresis (check_state (recording vec_zero) (climb_input 1500000) armed_run))
   \<and> \<not> in_smooth_takeoff (snd (tick (recording vec_zero) (climb_input 1500000) armed_run))
   \<and> takeoff_speed (snd (tick (recording vec_zero) (climb_input 1500000) armed_run)) = Fin (- 1)"
  by (simp add: entry_defs controller_defs scenario_defs Let_def)

text \<open>
  Scenario S1 at four seconds, 0.02 s after the tick before: the takeoff is entered and the
  first update gives the ramp value \<open>-0.5 + 1.5 * 0.02 / 3 = -0.49\<close>.
\<close>

theorem takeoff_entry_witness:
  "landed (vehicle_land_detected (after_head (climb_input 4000000) S1_waiting))
   \<and> \<not> in_smooth_takeoff S1_waiting
   \<and> isAnyTaskActive (flight_tasks (after_head (climb_input 4000000) S1_waiting))
   \<and> get_state (arm_hysteresis (check_state (recording vec_zero) (climb_input 4000000) S1_waiting))
   \<and> sp_z (tick_setpoint (climb_input 4000000) S1_waiting) = Fin (- 2)
   \<and> vec_2 (position (states (check_state (recording vec_zero) (climb_input 4000000) S1_waiting))) = Fin 0
   \<and> dt (check_state (recording vec_zero) (climb_input 4000000) S1_waiting) = Fin (2 / 100)
   \<and> in_smooth_takeoff (snd (tick (recording vec_zero) (climb_input 4000000) S1_waiting))
   \<and> takeoff_speed (snd (tick (recording vec_zero) (climb_input 4000000) S1_waiting))
       = Fin (- (49 / 100))"
proof -
  let ?g = "check_state (recording vec_zero) (climb_input 4000000) S1_waiting"
  have w: "\<not> in_smooth_takeoff S1_waiting"
    by (simp add: entry_defs controller_defs scenario_defs Let_def)
  have r: "landed (vehicle_land_detected (after_head (climb_input 4000000) S1_waiting))"
    "isAnyTaskActive (flight_tasks (after_head (climb_input 4000000) S1_waiting))"
    "get_state (arm_hysteresis ?g)"
    "sp_z (tick_setpoint (climb_input 4000000) S1_waiting) = Fin (- 2)"
    "sp_vz (tick_setpoint (climb_input 4000000) S1_waiting) = NaN"
    "getConstraints (climb_input 4000000) = free_constraints"
    "states ?g = \<lparr>position = vec_zero, velocity = vec_zero, acceleration = vec_zero, yaw = Fin 0\<rparr>"
    "dt ?g = Fin (2 / 100)"
    "params ?g = scenario_parameters"
    "landed (vehicle_land_detected ?g)" "\<not> in_smooth_takeoff ?g"
    by (simp_all add: entry_defs controller_defs scenario_defs Let_def)
  have v: "in_smooth_takeoff (update_smooth_takeoff (Fin (- 2)) NaN
             (check_for_smooth_takeoff (Fin (- 2)) NaN free_constraints ?g))"
    "takeoff_speed (update_smooth_takeoff (Fin (- 2)) NaN
             (check_for_smooth_takeoff (Fin (- 2)) NaN free_constraints ?g)) = Fin (- (49 / 100))"
    using r(7-11)
    by (simp_all add: update_smooth_takeoff_def check_for_smooth_takeoff_def free_constraints_def
          scenario_parameters_def vec_zero_def fsub_def fgt_def math_min_def math_max_def Let_def)
  show ?thesis
    using w r(1-9) v
      takeoff_entry [of "climb_input 4000000" S1_waiting "recording vec_zero"]
    by (simp add: free_constraints_def scenario_parameters_def vec_zero_def fsub_def math_min_def)
qed

end
